theory Spec2Isabelle
  imports Main "HOL-Library.Sublist"
begin

section \<open>Go errors: sentinels, wrapping and \<open>errors.Is\<close>\<close>

text \<open>
  The worker classifies failures by wrapping: \<open>ErrRetryable\<close> is a sentinel created with
  \<open>errors.New("retryable error")\<close>, and \<open>fmt.Errorf("%w: ...", ErrRetryable, err)\<close> builds an
  error whose \<open>Unwrap\<close> is the sentinel. \<open>ErrorString\<close> is what \<open>errors.New\<close> and a
  \<open>fmt.Errorf\<close> without \<open>%w\<close> return; \<open>WrapError msg e\<close> is what \<open>fmt.Errorf\<close> with
  \<open>%w\<close> returns (its text and the error it wraps).
\<close>

text \<open>
  Modelled from the spec: the sentinels \<open>email.ErrSenderNotAvailable\<close> (the "sender not
  configured" condition of the email sender) and \<open>pgx.ErrNoRows\<close> ("no pending
  notification") are declared in other packages. Both packages are imported by the
  notification package, so neither sentinel can wrap \<open>ErrRetryable\<close>; each is a plain
  \<open>errors.New\<close> value with the text of its declaration.
\<close>

datatype go_error =
    ErrRetryable
  | ErrNoRows
  | ErrSenderNotAvailable
  | ErrorString string
  | WrapError string go_error

fun Error :: "go_error \<Rightarrow> string" where
  "Error ErrRetryable = ''retryable error''"
| "Error ErrNoRows = ''no rows in result set''"
| "Error ErrSenderNotAvailable = ''email sender not available''"
| "Error (ErrorString s) = s"
| "Error (WrapError m e) = m"

text \<open>\<open>errors.Is\<close> on a non-nil error: compare, then follow \<open>Unwrap\<close>.\<close>

fun Is_chain :: "go_error \<Rightarrow> go_error \<Rightarrow> bool" where
  "Is_chain (WrapError m e) target = (WrapError m e = target \<or> Is_chain e target)"
| "Is_chain e target = (e = target)"

text \<open>\<open>errors.Is(err, target)\<close> where \<open>err\<close> may be nil (\<open>None\<close>).\<close>

definition errors_Is :: "go_error option \<Rightarrow> go_error \<Rightarrow> bool" where
  "errors_Is err target = (case err of None \<Rightarrow> False | Some e \<Rightarrow> Is_chain e target)"

text \<open>\<open>strconv\<close>-style decimal rendering, as \<open>%d\<close> prints an \<open>int\<close>.\<close>

fun digits :: "nat \<Rightarrow> string" where
  "digits n = (if n < 10 then [''0123456789'' ! n]
               else digits (n div 10) @ [''0123456789'' ! (n mod 10)])"

declare digits.simps [simp del]

definition Itoa :: "int \<Rightarrow> string" where
  "Itoa i = (if i < 0 then CHR ''-'' # digits (nat (- i)) else digits (nat i))"

text \<open>What a Go function hands back: a value, an error, or a panic that unwinds.\<close>

datatype 'a result = Ok 'a | Err go_error | Panic string

definition err_of :: "unit result \<Rightarrow> go_error option" where
  "err_of r = (case r of Err e \<Rightarrow> Some e | _ \<Rightarrow> None)"

section \<open>Data model\<close>

text \<open>\<open>hub.User\<close>, as declared.\<close>

record user =
  UserID :: string
  Alias :: string
  FirstName :: string
  LastName :: string
  Email :: string
  EmailVerified :: bool
  Password :: string
  ProfileImageID :: string
  PasswordSet :: bool
  TFAEnabled :: bool

text \<open>
  Modelled from the spec: the declaration of \<open>hub.EventKind\<close> is in another file; the
  kinds are the four the worker switches on.
\<close>

datatype event_kind =
    NewRelease
  | RepositoryScanningErrors
  | RepositoryTrackingErrors
  | RepositoryOwnershipClaim

text \<open>
  Modelled from the spec: the declaration of \<open>hub.Event\<close> is in another file; an event
  has its identifier, its kind and the references the worker reads.
\<close>

record event =
  EventID :: string
  EventKind :: event_kind
  PackageID :: string
  PackageVersion :: string
  RepositoryID :: string

text \<open>
  Modelled from the spec: the declaration of \<open>hub.Webhook\<close> is in another file; a webhook
  has a destination URL, a shared secret, an optional template and an optional content type
  (optional: the empty string).
\<close>

record webhook =
  URL :: string
  Secret :: string
  Template :: string
  ContentType :: string

text \<open>
  Modelled from the spec: the declaration of \<open>hub.Notification\<close> is in another file; the
  two targets are pointers, nil (\<open>None\<close>) when the notification is not for them.
\<close>

record notification =
  NotificationID :: string
  Event :: event
  User :: "user option"
  Webhook :: "webhook option"

text \<open>
  Modelled from the spec: the declarations of \<open>hub.Repository\<close> and \<open>hub.Package\<close> are in
  another file; the records hold the fields the worker reads. A package's changes are a
  list of strings.
\<close>

record repository =
  r_Kind :: int
  r_Name :: string
  r_UserAlias :: string
  r_OrganizationName :: string
  r_LastScanningErrors :: string
  r_LastTrackingErrors :: string

record package =
  p_Name :: string
  p_Version :: string
  p_LogoImageID :: string
  p_Changes :: "string list"
  p_ContainsSecurityUpdates :: bool
  p_Prerelease :: bool
  p_Repository :: repository

text \<open>
  Modelled from the spec: the declaration of \<open>email.Data\<close> is in another package; the data
  of an email are its recipient, subject and body.
\<close>

record email_data =
  To :: string
  Subject :: string
  Body :: string

text \<open>
  The template data. The Go code builds \<open>map[string]interface{}\<close> literals with fixed keys;
  each such map is a record whose fields are the keys.
\<close>

record event_map =
  ev_id :: string
  ev_kind :: string

record pkg_repository_map =
  pr_kind :: string
  pr_name :: string
  pr_publisher :: string

record package_map =
  pm_name :: string
  pm_version :: string
  pm_logoImageID :: string
  pm_url :: string
  pm_changes :: "string list"
  pm_containsSecurityUpdates :: bool
  pm_prerelease :: bool
  pm_repository :: pkg_repository_map

record PackageNotificationTemplateData =
  pd_BaseURL :: string
  pd_Event :: event_map
  pd_Package :: package_map

record repository_map =
  rm_kind :: string
  rm_name :: string
  rm_userAlias :: string
  rm_organizationName :: string
  rm_lastScanningErrors :: "string list"
  rm_lastTrackingErrors :: "string list"

record RepositoryNotificationTemplateData =
  rd_BaseURL :: string
  rd_Event :: event_map
  rd_Repository :: repository_map

text \<open>An outbound request and the part of the response the worker looks at.\<close>

record http_request =
  req_method :: string
  req_url :: string
  req_headers :: "(string \<times> string) list"
  req_body :: string

text \<open>The cache stores \<open>interface{}\<close> values; the worker asserts their dynamic type.\<close>

datatype cache_value =
    CEmailData email_data
  | CPackage package
  | CRepository repository

text \<open>A row of the notification queue: the notification, its processed flag, its error text.\<close>

record db_row =
  row_notification :: notification
  row_processed :: bool
  row_error :: string

text \<open>
  What the worker does to the outside, in order. The world is the queue, the cache (the
  entries that have not expired when the worker looks) and the effects so far.
\<close>

datatype effect =
    Log string "go_error option"
  | CallGetPending
  | CallUpdateStatus string bool "go_error option"
  | CallSendEmail email_data
  | CallHTTPDo http_request
  | TxBegin
  | TxCommit
  | TxRollback

record world =
  db :: "db_row list"
  cache :: "string \<rightharpoonup> cache_value"
  trace :: "effect list"

definition emit :: "effect \<Rightarrow> world \<Rightarrow> world" where
  "emit e st = st\<lparr>trace := trace st @ [e]\<rparr>"

text \<open>
  The worker and its collaborators (\<open>Worker\<close>, \<open>Services\<close>). Each collaborator is an
  interface implemented elsewhere, so it is a parameter: what it answers to a call.
  \<open>ES = None\<close> is \<open>w.svc.ES == nil\<close>. A template is what \<open>Execute\<close> does with the data;
  the four email templates are variables of the package declared in another file.
  \<open>BuildURL\<close> and \<open>GetKindName\<close> stand for \<open>pkg.BuildURL\<close> and \<open>hub.GetKindName\<close>, functions
  of other packages.
  \<open>NewRequest_ok\<close> says whether \<open>http.NewRequest\<close> accepts the URL (the code drops its error).
  \<open>GetPending_fault\<close> and \<open>UpdateStatus_fault\<close> are the errors the store raises, if any.
  \<open>elapsed\<close> is the time one call of \<open>processNotification\<close> takes when started at a given
  instant, and \<open>done_wins_tie\<close> is the choice \<open>select\<close> makes when the timer and the
  cancellation become ready at the same instant.
\<close>

type_synonym pkg_template = "PackageNotificationTemplateData \<Rightarrow> go_error + string"
type_synonym repo_template = "RepositoryNotificationTemplateData \<Rightarrow> go_error + string"

record worker =
  baseURL :: string
  ES :: "(email_data \<Rightarrow> go_error option) option"
  PackageManager_Get :: "string \<Rightarrow> string \<Rightarrow> go_error + package"
  RepositoryManager_GetByID :: "string \<Rightarrow> go_error + repository"
  httpClient_Do :: "http_request \<Rightarrow> go_error + int"
  template_Parse :: "string \<Rightarrow> go_error + pkg_template"
  newReleaseEmailTmpl :: pkg_template
  scanningErrorsEmailTmpl :: repo_template
  trackingErrorsEmailTmpl :: repo_template
  ownershipClaimEmailTmpl :: repo_template
  BuildURL :: "string \<Rightarrow> package \<Rightarrow> string \<Rightarrow> string"
  GetKindName :: "int \<Rightarrow> string"
  NewRequest_ok :: "string \<Rightarrow> bool"
  GetPending_fault :: "go_error option"
  UpdateStatus_fault :: "go_error option"
  elapsed :: "nat \<Rightarrow> nat"
  done_wins_tie :: bool

section \<open>Constants\<close>

definition Second :: nat where
  "Second = 1000000000"

definition pauseOnEmptyQueue :: nat where
  "pauseOnEmptyQueue = 30 * Second"

definition pauseOnError :: nat where
  "pauseOnError = 10 * Second"

definition DefaultPayloadContentType :: string where
  "DefaultPayloadContentType = ''application/cloudevents+json''"

section \<open>The default webhook payload template\<close>

text \<open>
  \<open>text/template\<close> copies the text between actions and prints each action's value with
  \<open>fmt.Fprint\<close>: a string as it is (nothing is escaped), a bool as \<open>true\<close> or \<open>false\<close>.
  \<open>tmpl_line n s\<close> is one line of the template text: \<open>n\<close> tabs, the text, a newline.
\<close>

definition tmpl_line :: "nat \<Rightarrow> string \<Rightarrow> string" where
  "tmpl_line n s = replicate n (CHR 0x09) @ s @ [CHR 0x0A]"

definition print_bool :: "bool \<Rightarrow> string" where
  "print_bool b = (if b then ''true'' else ''false'')"

text \<open>
  \<open>{{range $i, $e := .Package.changes}}{{if $i}}, {{end}}"{{.}}"{{end}}\<close>: the index is
  true in \<open>if\<close> when it is not zero.
\<close>

fun range_changes :: "nat \<Rightarrow> string list \<Rightarrow> string" where
  "range_changes i [] = []"
| "range_changes i (e # es) =
     (if i \<noteq> 0 then '', '' else []) @ [CHR 0x22] @ e @ [CHR 0x22] @ range_changes (Suc i) es"

definition DefaultWebhookPayload :: "PackageNotificationTemplateData \<Rightarrow> string" where
  \<open>DefaultWebhookPayload d = (
     [CHR 0x0A] @
     tmpl_line 0 ''{'' @
     tmpl_line 1 ''"specversion" : "1.0",'' @
     tmpl_line 1 (''"id" : "'' @ ev_id (pd_Event d) @ ''",'') @
     tmpl_line 1 ''"source" : "https://artifacthub.io/cloudevents",'' @
     tmpl_line 1 (''"type" : "io.artifacthub.'' @ ev_kind (pd_Event d) @ ''",'') @
     tmpl_line 1 ''"datacontenttype" : "application/json",'' @
     tmpl_line 1 ''"data" : {'' @
     tmpl_line 2 ''"package": {'' @
     tmpl_line 3 (''"name": "'' @ pm_name (pd_Package d) @ ''",'') @
     tmpl_line 3 (''"version": "'' @ pm_version (pd_Package d) @ ''",'') @
     tmpl_line 3 (''"url": "'' @ pm_url (pd_Package d) @ ''",'') @
     tmpl_line 3 (''"changes": ['' @ range_changes 0 (pm_changes (pd_Package d)) @ ''],'') @
     tmpl_line 3 (''"containsSecurityUpdates": '' @
                  print_bool (pm_containsSecurityUpdates (pd_Package d)) @ '','') @
     tmpl_line 3 (''"prerelease": '' @ print_bool (pm_prerelease (pd_Package d)) @ '','') @
     tmpl_line 3 ''"repository": {'' @
     tmpl_line 4 (''"kind": "'' @ pr_kind (pm_repository (pd_Package d)) @ ''",'') @
     tmpl_line 4 (''"name": "'' @ pr_name (pm_repository (pd_Package d)) @ ''",'') @
     tmpl_line 4 (''"publisher": "'' @ pr_publisher (pm_repository (pd_Package d)) @ ''"'') @
     tmpl_line 3 ''}'' @
     tmpl_line 2 ''}'' @
     tmpl_line 1 ''}'' @
     tmpl_line 0 ''}'')\<close>

text \<open>
  Every field the template reads is present in the data, so \<open>Execute\<close> on the default
  template does not fail.
\<close>

definition DefaultWebhookPayloadTmpl :: pkg_template where
  "DefaultWebhookPayloadTmpl d = Inr (DefaultWebhookPayload d)"

section \<open>Preparing the template data\<close>

text \<open>\<open>strings.Split(s, "\n")\<close>, for a one-character separator.\<close>

fun Split :: "string \<Rightarrow> char \<Rightarrow> string list" where
  "Split [] c = [[]]"
| "Split (x # xs) c =
     (if x = c then [] # Split xs c
      else (case Split xs c of y # ys \<Rightarrow> (x # y) # ys | [] \<Rightarrow> [[x]]))"

text \<open>The part of \<open>preparePkgNotificationTemplateData\<close> after the package is at hand.\<close>

definition pkgTemplateData :: "worker \<Rightarrow> event \<Rightarrow> package \<Rightarrow> PackageNotificationTemplateData" where
  "pkgTemplateData w e p =
     (let eventKindStr = (case EventKind e of NewRelease \<Rightarrow> ''package.new-release'' | _ \<Rightarrow> []);
          publisher = (if r_OrganizationName (p_Repository p) = []
                       then r_UserAlias (p_Repository p)
                       else r_OrganizationName (p_Repository p))
      in \<lparr>pd_BaseURL = baseURL w,
          pd_Event = \<lparr>ev_id = EventID e, ev_kind = eventKindStr\<rparr>,
          pd_Package = \<lparr>
            pm_name = p_Name p,
            pm_version = p_Version p,
            pm_logoImageID = p_LogoImageID p,
            pm_url = BuildURL w (baseURL w) p (PackageVersion e),
            pm_changes = p_Changes p,
            pm_containsSecurityUpdates = p_ContainsSecurityUpdates p,
            pm_prerelease = p_Prerelease p,
            pm_repository = \<lparr>
              pr_kind = GetKindName w (r_Kind (p_Repository p)),
              pr_name = r_Name (p_Repository p),
              pr_publisher = publisher\<rparr>\<rparr>\<rparr>)"

definition preparePkgNotificationTemplateData ::
  "worker \<Rightarrow> event \<Rightarrow> world \<Rightarrow> PackageNotificationTemplateData result \<times> world" where
  "preparePkgNotificationTemplateData w e st =
     (let cKey = ''package.%'' @ EventID e in
      case cache st cKey of
        Some cValue \<Rightarrow>
          (case cValue of
             CPackage p \<Rightarrow> (Ok (pkgTemplateData w e p), st)
           | _ \<Rightarrow> (Panic ''interface conversion'', st))
      | None \<Rightarrow>
          (case PackageManager_Get w (PackageID e) (PackageVersion e) of
             Inl err \<Rightarrow> (Err err, st)
           | Inr p \<Rightarrow> (Ok (pkgTemplateData w e p), st\<lparr>cache := (cache st)(cKey \<mapsto> CPackage p)\<rparr>)))"

definition repoTemplateData :: "worker \<Rightarrow> event \<Rightarrow> repository \<Rightarrow> RepositoryNotificationTemplateData" where
  "repoTemplateData w e r =
     (let eventKindStr = (case EventKind e of
                            RepositoryScanningErrors \<Rightarrow> ''repository.scanning-errors''
                          | RepositoryTrackingErrors \<Rightarrow> ''repository.tracking-errors''
                          | RepositoryOwnershipClaim \<Rightarrow> ''repository.ownership-claim''
                          | _ \<Rightarrow> [])
      in \<lparr>rd_BaseURL = baseURL w,
          rd_Event = \<lparr>ev_id = EventID e, ev_kind = eventKindStr\<rparr>,
          rd_Repository = \<lparr>
            rm_kind = GetKindName w (r_Kind r),
            rm_name = r_Name r,
            rm_userAlias = r_UserAlias r,
            rm_organizationName = r_OrganizationName r,
            rm_lastScanningErrors = Split (r_LastScanningErrors r) (CHR 0x0A),
            rm_lastTrackingErrors = Split (r_LastTrackingErrors r) (CHR 0x0A)\<rparr>\<rparr>)"

definition prepareRepoNotificationTemplateData ::
  "worker \<Rightarrow> event \<Rightarrow> world \<Rightarrow> RepositoryNotificationTemplateData result \<times> world" where
  "prepareRepoNotificationTemplateData w e st =
     (let cKey = ''repository.%'' @ EventID e in
      case cache st cKey of
        Some cValue \<Rightarrow>
          (case cValue of
             CRepository r \<Rightarrow> (Ok (repoTemplateData w e r), st)
           | _ \<Rightarrow> (Panic ''interface conversion'', st))
      | None \<Rightarrow>
          (case RepositoryManager_GetByID w (RepositoryID e) of
             Inl err \<Rightarrow> (Err err, st)
           | Inr r \<Rightarrow> (Ok (repoTemplateData w e r), st\<lparr>cache := (cache st)(cKey \<mapsto> CRepository r)\<rparr>)))"

text \<open>
  The repository branches of \<open>prepareEmailData\<close> differ in the subject and the template
  only; \<open>repoEmailData\<close> is their common shape.
\<close>

definition repoEmailData ::
  "worker \<Rightarrow> event \<Rightarrow> world \<Rightarrow> (RepositoryNotificationTemplateData \<Rightarrow> string) \<Rightarrow> repo_template
     \<Rightarrow> email_data result \<times> world" where
  "repoEmailData w e st subject tmpl =
     (case prepareRepoNotificationTemplateData w e st of
        (Err err, st') \<Rightarrow> (Err err, st')
      | (Panic m, st') \<Rightarrow> (Panic m, st')
      | (Ok tmplData, st') \<Rightarrow>
          (case tmpl tmplData of
             Inl err \<Rightarrow> (Err err, st')
           | Inr emailBody \<Rightarrow> (Ok \<lparr>To = [], Subject = subject tmplData, Body = emailBody\<rparr>, st')))"

definition prepareEmailData :: "worker \<Rightarrow> event \<Rightarrow> world \<Rightarrow> email_data result \<times> world" where
  "prepareEmailData w e st =
     (case EventKind e of
        NewRelease \<Rightarrow>
          (case preparePkgNotificationTemplateData w e st of
             (Err err, st') \<Rightarrow> (Err err, st')
           | (Panic m, st') \<Rightarrow> (Panic m, st')
           | (Ok tmplData, st') \<Rightarrow>
               (case newReleaseEmailTmpl w tmplData of
                  Inl err \<Rightarrow> (Err err, st')
                | Inr emailBody \<Rightarrow>
                    (Ok \<lparr>To = [],
                         Subject = pm_name (pd_Package tmplData) @ '' version ''
                                   @ pm_version (pd_Package tmplData) @ '' released'',
                         Body = emailBody\<rparr>, st')))
      | RepositoryScanningErrors \<Rightarrow>
          repoEmailData w e st
            (\<lambda>tmplData. ''Something went wrong scanning repository '' @ rm_name (rd_Repository tmplData))
            (scanningErrorsEmailTmpl w)
      | RepositoryTrackingErrors \<Rightarrow>
          repoEmailData w e st
            (\<lambda>tmplData. ''Something went wrong tracking repository '' @ rm_name (rd_Repository tmplData))
            (trackingErrorsEmailTmpl w)
      | RepositoryOwnershipClaim \<Rightarrow>
          repoEmailData w e st
            (\<lambda>tmplData. rm_name (rd_Repository tmplData) @ '' repository ownership has been claimed'')
            (ownershipClaimEmailTmpl w))"

section \<open>Delivery channels\<close>

definition deliverEmailNotification :: "worker \<Rightarrow> notification \<Rightarrow> world \<Rightarrow> unit result \<times> world" where
  "deliverEmailNotification w n st =
     (let cKey = ''emailData.%'' @ EventID (Event n) in
      case (case cache st cKey of
              Some cValue \<Rightarrow>
                (case cValue of
                   CEmailData d \<Rightarrow> (Ok d, st)
                 | _ \<Rightarrow> (Panic ''interface conversion'', st))
            | None \<Rightarrow>
                (case prepareEmailData w (Event n) st of
                   (Err err, st') \<Rightarrow>
                     (Err (WrapError (Error ErrRetryable @ '': error preparing email data: '' @ Error err)
                                     ErrRetryable), st')
                 | (Panic m, st') \<Rightarrow> (Panic m, st')
                 | (Ok d, st') \<Rightarrow> (Ok d, st'\<lparr>cache := (cache st')(cKey \<mapsto> CEmailData d)\<rparr>)))
      of
        (Err err, st') \<Rightarrow> (Err err, st')
      | (Panic m, st') \<Rightarrow> (Panic m, st')
      | (Ok emailData, st') \<Rightarrow>
          (case User n of
             None \<Rightarrow> (Panic ''nil pointer dereference'', st')
           | Some u \<Rightarrow>
               (case ES w of
                  None \<Rightarrow> (Panic ''nil pointer dereference'', st')
                | Some SendEmail \<Rightarrow>
                    (let emailData' = emailData\<lparr>To := Email u\<rparr> in
                     (case SendEmail emailData' of None \<Rightarrow> Ok () | Some err \<Rightarrow> Err err,
                      emit (CallSendEmail emailData') st')))))"

text \<open>
  The request of \<open>deliverWebhookNotification\<close>: a POST to the webhook's URL with the payload
  as body, the content type (the webhook's, or the default one) and the secret header.
\<close>

definition webhookRequest :: "webhook \<Rightarrow> string \<Rightarrow> http_request" where
  "webhookRequest wh payload =
     (let contentType = (if ContentType wh = [] then DefaultPayloadContentType else ContentType wh)
      in \<lparr>req_method = ''POST'',
          req_url = URL wh,
          req_headers = [(''Content-Type'', contentType), (''X-ArtifactHub-Secret'', Secret wh)],
          req_body = payload\<rparr>)"

definition deliverWebhookNotification :: "worker \<Rightarrow> notification \<Rightarrow> world \<Rightarrow> unit result \<times> world" where
  "deliverWebhookNotification w n st =
     (case preparePkgNotificationTemplateData w (Event n) st of
        (Err err, st') \<Rightarrow> (Err (WrapError (Error ErrRetryable @ '': '' @ Error err) ErrRetryable), st')
      | (Panic m, st') \<Rightarrow> (Panic m, st')
      | (Ok tmplData, st') \<Rightarrow>
          (case Webhook n of
             None \<Rightarrow> (Panic ''nil pointer dereference'', st')
           | Some wh \<Rightarrow>
               (case (if Template wh \<noteq> [] then template_Parse w (Template wh)
                      else Inr DefaultWebhookPayloadTmpl) of
                  Inl err \<Rightarrow> (Err err, st')
                | Inr tmpl \<Rightarrow>
                    (case tmpl tmplData of
                       Inl err \<Rightarrow> (Err err, st')
                     | Inr payload \<Rightarrow>
                         (let req = webhookRequest wh payload
                          in if \<not> NewRequest_ok w (URL wh) then (Panic ''nil pointer dereference'', st')
                             else (case httpClient_Do w req of
                                     Inl err \<Rightarrow> (Err err, emit (CallHTTPDo req) st')
                                   | Inr StatusCode \<Rightarrow>
                                       (if StatusCode \<ge> 400
                                        then Err (ErrorString (''unexpected status code: '' @ Itoa StatusCode))
                                        else Ok (),
                                        emit (CallHTTPDo req) st')))))))"

section \<open>The dequeue transaction\<close>

text \<open>
  Modelled from the spec: \<open>NotificationManager.GetPending\<close> is implemented in another
  file. It claims the oldest unprocessed row, or fails with \<open>ErrNoRows\<close> when there is
  none, or with the store's own error.
\<close>

definition NotificationManager_GetPending :: "worker \<Rightarrow> db_row list \<Rightarrow> go_error + notification" where
  "NotificationManager_GetPending w rows =
     (case GetPending_fault w of
        Some e \<Rightarrow> Inl e
      | None \<Rightarrow>
          (case find (\<lambda>r. \<not> row_processed r) rows of
             None \<Rightarrow> Inl ErrNoRows
           | Some r \<Rightarrow> Inr (row_notification r)))"

text \<open>
  Modelled from the spec: \<open>NotificationManager.UpdateStatus\<close> is implemented in another
  file. It sets the processed flag of the notification's row and stores the error's text
  (the empty string when there is no error); an update that fails writes nothing.
\<close>

definition NotificationManager_UpdateStatus ::
  "worker \<Rightarrow> db_row list \<Rightarrow> string \<Rightarrow> bool \<Rightarrow> go_error option \<Rightarrow> go_error option \<times> db_row list" where
  "NotificationManager_UpdateStatus w rows notificationID processed processedErr =
     (case UpdateStatus_fault w of
        Some e \<Rightarrow> (Some e, rows)
      | None \<Rightarrow>
          (None,
           map (\<lambda>r. if NotificationID (row_notification r) = notificationID
                    then r\<lparr>row_processed := processed,
                           row_error := (case processedErr of None \<Rightarrow> [] | Some e \<Rightarrow> Error e)\<rparr>
                    else r) rows))"

text \<open>
  Modelled from the spec: \<open>util.DBTransact\<close> is implemented in another package. It runs
  the function inside one transaction, rolls back when the function returns an error (or
  panics) and commits when it returns nil. The cache and the calls already made to
  recipients are not part of the transaction.
\<close>

definition DBTransact :: "(world \<Rightarrow> unit result \<times> world) \<Rightarrow> world \<Rightarrow> unit result \<times> world" where
  "DBTransact txFunc st =
     (case txFunc (emit TxBegin st) of
        (Ok u, st') \<Rightarrow> (Ok u, emit TxCommit st')
      | (Err err, st') \<Rightarrow> (Err err, emit TxRollback (st'\<lparr>db := db st\<rparr>))
      | (Panic m, st') \<Rightarrow> (Panic m, emit TxRollback (st'\<lparr>db := db st\<rparr>)))"

text \<open>The \<open>switch\<close> of \<open>processNotification\<close>: which channel delivers, if any.\<close>

definition deliver :: "worker \<Rightarrow> notification \<Rightarrow> world \<Rightarrow> unit result \<times> world" where
  "deliver w n st =
     (if User n \<noteq> None then
        (if ES w \<noteq> None then deliverEmailNotification w n st
         else (Err ErrSenderNotAvailable, st))
      else if Webhook n \<noteq> None then deliverWebhookNotification w n st
      else (Ok (), st))"

text \<open>The function \<open>processNotification\<close> passes to \<open>DBTransact\<close>.\<close>

definition processNotification_tx :: "worker \<Rightarrow> world \<Rightarrow> unit result \<times> world" where
  "processNotification_tx w st =
     (let st1 = emit CallGetPending st in
      case NotificationManager_GetPending w (db st1) of
        Inl err \<Rightarrow>
          (Err err,
           if \<not> errors_Is (Some err) ErrNoRows
           then emit (Log ''processNotification: error getting pending notification'' (Some err)) st1
           else st1)
      | Inr n \<Rightarrow>
          (case deliver w n st1 of
             (Panic m, st2) \<Rightarrow> (Panic m, st2)
           | (r, st2) \<Rightarrow>
               (let err = err_of r in
                if errors_Is err ErrRetryable
                then (r, emit (Log ''processNotification: error delivering notification'' err) st2)
                else
                  (let st3 = emit (CallUpdateStatus (NotificationID n) True err) st2;
                       (err', rows) = NotificationManager_UpdateStatus w (db st3) (NotificationID n) True err;
                       st4 = st3\<lparr>db := rows\<rparr>
                   in (Ok (),
                       case err' of
                         None \<Rightarrow> st4
                       | Some e \<Rightarrow>
                           emit (Log ''processNotification: error updating notification status'' (Some e)) st4)))))"

definition processNotification :: "worker \<Rightarrow> world \<Rightarrow> unit result \<times> world" where
  "processNotification w st = DBTransact (processNotification_tx w) st"

section \<open>The worker loop\<close>

text \<open>
  Time is a clock in nanoseconds. The context is the instant at which it is cancelled, if
  ever. \<open>select\<close> between \<open>time.After(d)\<close> and \<open>ctx.Done()\<close> takes the case that becomes ready
  first; when both become ready at the same instant the choice is the runtime's.
  The loop may run forever, so \<open>Run\<close> takes the number of iterations it may make and
  answers \<open>None\<close> when they are used up.
\<close>

datatype select_case = TimerCase | DoneCase

definition ctx_Done :: "nat option \<Rightarrow> nat \<Rightarrow> bool" where
  "ctx_Done ctx now = (case ctx of None \<Rightarrow> False | Some c \<Rightarrow> c \<le> now)"

definition select_After_or_Done :: "worker \<Rightarrow> nat \<Rightarrow> nat option \<Rightarrow> nat \<Rightarrow> select_case \<times> nat" where
  "select_After_or_Done w d ctx now =
     (case ctx of
        None \<Rightarrow> (TimerCase, now + d)
      | Some c \<Rightarrow>
          if c < now + d then (DoneCase, max c now)
          else if c = now + d \<and> done_wins_tie w then (DoneCase, now + d)
          else (TimerCase, now + d))"

fun Run :: "nat \<Rightarrow> worker \<Rightarrow> nat option \<Rightarrow> world \<Rightarrow> nat \<Rightarrow> (unit result \<times> world \<times> nat) option" where
  "Run 0 w ctx st now = None"
| "Run (Suc k) w ctx st now =
     (let t = now + elapsed w now in
      case processNotification w st of
        (Panic m, st') \<Rightarrow> Some (Panic m, st', t)
      | (Ok u, st') \<Rightarrow>
          (if ctx_Done ctx t then Some (Ok (), st', t)
           else Run k w ctx st' t)
      | (Err err, st') \<Rightarrow>
          (if errors_Is (Some err) ErrNoRows then
             (case select_After_or_Done w pauseOnEmptyQueue ctx t of
                (DoneCase, t') \<Rightarrow> Some (Ok (), st', t')
              | (TimerCase, t') \<Rightarrow> Run k w ctx st' t')
           else
             (case select_After_or_Done w pauseOnError ctx t of
                (DoneCase, t') \<Rightarrow> Some (Ok (), st', t')
              | (TimerCase, t') \<Rightarrow> Run k w ctx st' t')))"

section \<open>Vocabulary of the properties\<close>

text \<open>
  \<open>is_delivery\<close> marks the effects that reach a recipient; \<open>new_effects st st'\<close> are the
  effects added between two states of the world.
\<close>

definition is_delivery :: "effect \<Rightarrow> bool" where
  "is_delivery x = (case x of CallSendEmail d \<Rightarrow> True | CallHTTPDo r \<Rightarrow> True | _ \<Rightarrow> False)"

definition new_effects :: "world \<Rightarrow> world \<Rightarrow> effect list" where
  "new_effects st st' = drop (length (trace st)) (trace st')"

text \<open>
  \<open>email_template_result w e st\<close> is what executing the body template of the event's kind
  answers on the data prepared for the event, and \<open>None\<close> when the data cannot be prepared.
\<close>

definition email_template_result :: "worker \<Rightarrow> event \<Rightarrow> world \<Rightarrow> (go_error + string) option" where
  "email_template_result w e st =
     (case EventKind e of
        NewRelease \<Rightarrow>
          (case preparePkgNotificationTemplateData w e st of
             (Ok tmplData, st') \<Rightarrow> Some (newReleaseEmailTmpl w tmplData)
           | _ \<Rightarrow> None)
      | RepositoryScanningErrors \<Rightarrow>
          (case prepareRepoNotificationTemplateData w e st of
             (Ok tmplData, st') \<Rightarrow> Some (scanningErrorsEmailTmpl w tmplData)
           | _ \<Rightarrow> None)
      | RepositoryTrackingErrors \<Rightarrow>
          (case prepareRepoNotificationTemplateData w e st of
             (Ok tmplData, st') \<Rightarrow> Some (trackingErrorsEmailTmpl w tmplData)
           | _ \<Rightarrow> None)
      | RepositoryOwnershipClaim \<Rightarrow>
          (case prepareRepoNotificationTemplateData w e st of
             (Ok tmplData, st') \<Rightarrow> Some (ownershipClaimEmailTmpl w tmplData)
           | _ \<Rightarrow> None))"

section \<open>JSON texts\<close>

text \<open>
  What it means for a rendered payload to be JSON: a parser for the grammar of RFC 8259
  that returns the syntax tree. Objects keep their members in order; a string or number
  leaf holds its text as written between the delimiters (escape sequences are checked, not
  decoded). A string is \<open>json_plain\<close> when it can stand between two quotes unchanged: no
  quote, no backslash, no control character. The recursion carries a bound on its depth,
  which \<open>parse_json\<close> starts above the length of the text; a text is JSON when
  \<open>parse_json\<close> returns its tree.
\<close>

datatype json =
    JNull
  | JBool bool
  | JNumber string
  | JString string
  | JArray "json list"
  | JObject "(string \<times> json) list"

definition is_ws :: "char \<Rightarrow> bool" where
  "is_ws c = (c = CHR '' '' \<or> c = CHR 0x09 \<or> c = CHR 0x0A \<or> c = CHR 0x0D)"

fun skip_ws :: "string \<Rightarrow> string" where
  "skip_ws [] = []"
| "skip_ws (c # cs) = (if is_ws c then skip_ws cs else c # cs)"

definition is_digit :: "char \<Rightarrow> bool" where
  "is_digit c = (c \<in> set ''0123456789'')"

definition is_hex :: "char \<Rightarrow> bool" where
  "is_hex c = (c \<in> set ''0123456789abcdefABCDEF'')"

definition is_escape :: "char \<Rightarrow> bool" where
  "is_escape c = (c = CHR 0x22 \<or> c = CHR 0x5C \<or> c \<in> set ''/bfnrt'')"

definition json_plain_char :: "char \<Rightarrow> bool" where
  "json_plain_char c = (c \<noteq> CHR 0x22 \<and> c \<noteq> CHR 0x5C \<and> (0x20 :: nat) \<le> of_char c)"

definition json_plain :: "string \<Rightarrow> bool" where
  "json_plain s = list_all json_plain_char s"

definition prepend :: "string \<Rightarrow> (string \<times> string) option \<Rightarrow> (string \<times> string) option" where
  "prepend p r = (case r of None \<Rightarrow> None | Some (s, rest) \<Rightarrow> Some (p @ s, rest))"

fun parse_string_body :: "string \<Rightarrow> (string \<times> string) option" where
  "parse_string_body [] = None"
| "parse_string_body (c # cs) =
     (if c = CHR 0x22 then Some ([], cs)
      else if c = CHR 0x5C then
        (case cs of
           [] \<Rightarrow> None
         | e # cs' \<Rightarrow>
             if is_escape e then prepend [c, e] (parse_string_body cs')
             else if e = CHR ''u'' \<and> 4 \<le> length cs' \<and> list_all is_hex (take 4 cs')
             then prepend (c # e # take 4 cs') (parse_string_body (drop 4 cs'))
             else None)
      else if json_plain_char c then prepend [c] (parse_string_body cs)
      else None)"

definition digits1 :: "string \<Rightarrow> (string \<times> string) option" where
  "digits1 s = (if takeWhile is_digit s = [] then None
                else Some (takeWhile is_digit s, dropWhile is_digit s))"

definition parse_number :: "string \<Rightarrow> (string \<times> string) option" where
  "parse_number s =
     (let (sign, s1) = (case s of c # r \<Rightarrow> if c = CHR ''-'' then ([c], r) else ([], s) | [] \<Rightarrow> ([], s))
      in case (case s1 of
                 [] \<Rightarrow> None
               | c # r \<Rightarrow> if c = CHR ''0'' then Some ([c], r) else digits1 s1) of
           None \<Rightarrow> None
         | Some (ip, s2) \<Rightarrow>
             (case (case s2 of
                      c # r \<Rightarrow> if c = CHR ''.'' then prepend [c] (digits1 r) else Some ([], s2)
                    | [] \<Rightarrow> Some ([], s2)) of
                None \<Rightarrow> None
              | Some (fp, s3) \<Rightarrow>
                  (case (case s3 of
                           c # r \<Rightarrow>
                             if c = CHR ''e'' \<or> c = CHR ''E'' then
                               (case r of
                                  d # r' \<Rightarrow>
                                    if d = CHR ''+'' \<or> d = CHR ''-'' then prepend [c, d] (digits1 r')
                                    else prepend [c] (digits1 r)
                                | [] \<Rightarrow> None)
                             else Some ([], s3)
                         | [] \<Rightarrow> Some ([], s3)) of
                     None \<Rightarrow> None
                   | Some (ep, s4) \<Rightarrow> Some (sign @ ip @ fp @ ep, s4))))"

fun parse_value :: "nat \<Rightarrow> string \<Rightarrow> (json \<times> string) option"
  and parse_members :: "nat \<Rightarrow> string \<Rightarrow> ((string \<times> json) list \<times> string) option"
  and parse_elements :: "nat \<Rightarrow> string \<Rightarrow> (json list \<times> string) option" where
  "parse_value 0 s = None"
| "parse_value (Suc n) s =
     (case skip_ws s of
        [] \<Rightarrow> None
      | c # cs \<Rightarrow>
          if c = CHR ''{'' then
            (case skip_ws cs of
               [] \<Rightarrow> None
             | d # ds \<Rightarrow>
                 if d = CHR ''}'' then Some (JObject [], ds)
                 else (case parse_members n cs of
                         None \<Rightarrow> None
                       | Some (ms, r) \<Rightarrow> Some (JObject ms, r)))
          else if c = CHR ''['' then
            (case skip_ws cs of
               [] \<Rightarrow> None
             | d # ds \<Rightarrow>
                 if d = CHR '']'' then Some (JArray [], ds)
                 else (case parse_elements n cs of
                         None \<Rightarrow> None
                       | Some (vs, r) \<Rightarrow> Some (JArray vs, r)))
          else if c = CHR 0x22 then
            (case parse_string_body cs of
               None \<Rightarrow> None
             | Some (str, r) \<Rightarrow> Some (JString str, r))
          else if take 4 (c # cs) = ''true'' then Some (JBool True, drop 4 (c # cs))
          else if take 5 (c # cs) = ''false'' then Some (JBool False, drop 5 (c # cs))
          else if take 4 (c # cs) = ''null'' then Some (JNull, drop 4 (c # cs))
          else (case parse_number (c # cs) of
                  None \<Rightarrow> None
                | Some (num, r) \<Rightarrow> Some (JNumber num, r)))"
| "parse_members 0 s = None"
| "parse_members (Suc n) s =
     (case skip_ws s of
        [] \<Rightarrow> None
      | c # cs \<Rightarrow>
          if c \<noteq> CHR 0x22 then None
          else (case parse_string_body cs of
                  None \<Rightarrow> None
                | Some (key, r) \<Rightarrow>
                    (case skip_ws r of
                       [] \<Rightarrow> None
                     | d # ds \<Rightarrow>
                         if d \<noteq> CHR '':'' then None
                         else (case parse_value n ds of
                                 None \<Rightarrow> None
                               | Some (v, r') \<Rightarrow>
                                   (case skip_ws r' of
                                      [] \<Rightarrow> None
                                    | x # xs \<Rightarrow>
                                        if x = CHR ''}'' then Some ([(key, v)], xs)
                                        else if x = CHR '','' then
                                          (case parse_members n xs of
                                             None \<Rightarrow> None
                                           | Some (ms, r'') \<Rightarrow> Some ((key, v) # ms, r''))
                                        else None)))))"
| "parse_elements 0 s = None"
| "parse_elements (Suc n) s =
     (case parse_value n s of
        None \<Rightarrow> None
      | Some (v, r) \<Rightarrow>
          (case skip_ws r of
             [] \<Rightarrow> None
           | x # xs \<Rightarrow>
               if x = CHR '']'' then Some ([v], xs)
               else if x = CHR '','' then
                 (case parse_elements n xs of
                    None \<Rightarrow> None
                  | Some (vs, r') \<Rightarrow> Some (v # vs, r'))
               else None))"

definition parse_json :: "string \<Rightarrow> json option" where
  "parse_json s =
     (case parse_value (Suc (length s)) s of
        None \<Rightarrow> None
      | Some (v, r) \<Rightarrow> if skip_ws r = [] then Some v else None)"

fun json_path :: "json \<Rightarrow> string list \<Rightarrow> json option" where
  "json_path v [] = Some v"
| "json_path (JObject ms) (k # ks) =
     (case map_of ms k of None \<Rightarrow> None | Some v \<Rightarrow> json_path v ks)"
| "json_path v (k # ks) = None"

text \<open>
  The envelope the default template is meant to produce for given template data, and the
  condition on the data under which the rendered text can be read back: the template
  inserts every string as it is, without escaping.
\<close>

definition envelope :: "PackageNotificationTemplateData \<Rightarrow> json" where
  "envelope d =
     JObject [
       (''specversion'', JString ''1.0''),
       (''id'', JString (ev_id (pd_Event d))),
       (''source'', JString ''https://artifacthub.io/cloudevents''),
       (''type'', JString (''io.artifacthub.'' @ ev_kind (pd_Event d))),
       (''datacontenttype'', JString ''application/json''),
       (''data'', JObject [
          (''package'', JObject [
             (''name'', JString (pm_name (pd_Package d))),
             (''version'', JString (pm_version (pd_Package d))),
             (''url'', JString (pm_url (pd_Package d))),
             (''changes'', JArray (map JString (pm_changes (pd_Package d)))),
             (''containsSecurityUpdates'', JBool (pm_containsSecurityUpdates (pd_Package d))),
             (''prerelease'', JBool (pm_prerelease (pd_Package d))),
             (''repository'', JObject [
                (''kind'', JString (pr_kind (pm_repository (pd_Package d)))),
                (''name'', JString (pr_name (pm_repository (pd_Package d)))),
                (''publisher'', JString (pr_publisher (pm_repository (pd_Package d))))])])])]"

definition plain_data :: "PackageNotificationTemplateData \<Rightarrow> bool" where
  "plain_data d =
     (json_plain (ev_id (pd_Event d)) \<and> json_plain (ev_kind (pd_Event d))
      \<and> json_plain (pm_name (pd_Package d)) \<and> json_plain (pm_version (pd_Package d))
      \<and> json_plain (pm_url (pd_Package d)) \<and> list_all json_plain (pm_changes (pd_Package d))
      \<and> json_plain (pr_kind (pm_repository (pd_Package d)))
      \<and> json_plain (pr_name (pm_repository (pd_Package d)))
      \<and> json_plain (pr_publisher (pm_repository (pd_Package d))))"

section \<open>Example configurations\<close>

text \<open>
  A worker whose collaborators all succeed, a new-release event for the package
  \<open>etcd 3.5.0\<close>, one notification for each kind of target and a queue holding one
  pending notification. The examples of the later sections vary these.
\<close>

definition example_repository :: repository where
  "example_repository = \<lparr>r_Kind = 0, r_Name = ''stable'', r_UserAlias = ''alice'',
     r_OrganizationName = ''cncf'', r_LastScanningErrors = [], r_LastTrackingErrors = []\<rparr>"

definition example_package :: package where
  "example_package = \<lparr>p_Name = ''etcd'', p_Version = ''3.5.0'', p_LogoImageID = ''logo1'',
     p_Changes = [], p_ContainsSecurityUpdates = False, p_Prerelease = False,
     p_Repository = example_repository\<rparr>"

definition example_worker :: worker where
  "example_worker = \<lparr>
     baseURL = ''https://hub.example'',
     ES = None,
     PackageManager_Get = (\<lambda>packageID version. Inr example_package),
     RepositoryManager_GetByID = (\<lambda>repositoryID. Inr example_repository),
     httpClient_Do = (\<lambda>req. Inr 200),
     template_Parse = (\<lambda>text. Inl (ErrorString ''template: unexpected EOF'')),
     newReleaseEmailTmpl = (\<lambda>d. Inr ''new release''),
     scanningErrorsEmailTmpl = (\<lambda>d. Inr ''scanning errors''),
     trackingErrorsEmailTmpl = (\<lambda>d. Inr ''tracking errors''),
     ownershipClaimEmailTmpl = (\<lambda>d. Inr ''ownership claim''),
     BuildURL = (\<lambda>base p version. base @ ''/packages/'' @ p_Name p @ ''/'' @ version),
     GetKindName = (\<lambda>kind. ''helm''),
     NewRequest_ok = (\<lambda>url. True),
     GetPending_fault = None,
     UpdateStatus_fault = None,
     elapsed = (\<lambda>now. 0),
     done_wins_tie = True\<rparr>"

definition example_event :: event where
  "example_event = \<lparr>EventID = ''e1'', EventKind = NewRelease, PackageID = ''p1'',
     PackageVersion = ''3.5.0'', RepositoryID = ''r1''\<rparr>"

definition example_user :: user where
  "example_user = \<lparr>UserID = ''u1'', Alias = ''alice'', FirstName = ''Alice'', LastName = ''A'',
     Email = ''alice@example.com'', EmailVerified = True, Password = [], ProfileImageID = [],
     PasswordSet = True, TFAEnabled = False\<rparr>"

definition example_webhook :: webhook where
  "example_webhook = \<lparr>URL = ''https://example.com/hook'', Secret = ''s3cret'',
     Template = [], ContentType = []\<rparr>"

definition webhook_notification :: notification where
  "webhook_notification = \<lparr>NotificationID = ''n1'', Event = example_event, User = None,
     Webhook = Some example_webhook\<rparr>"

definition email_notification :: notification where
  "email_notification = \<lparr>NotificationID = ''n2'', Event = example_event, User = Some example_user,
     Webhook = None\<rparr>"

definition untargeted_notification :: notification where
  "untargeted_notification = \<lparr>NotificationID = ''n3'', Event = example_event, User = None,
     Webhook = None\<rparr>"

definition pending :: "notification \<Rightarrow> world" where
  "pending n = \<lparr>db = [\<lparr>row_notification = n, row_processed = False, row_error = []\<rparr>],
     cache = Map.empty, trace = []\<rparr>"

definition failing_package_worker :: worker where
  "failing_package_worker =
     example_worker\<lparr>PackageManager_Get := (\<lambda>packageID version. Inl (ErrorString ''connection reset''))\<rparr>"

definition failing_update_worker :: worker where
  "failing_update_worker = example_worker\<lparr>UpdateStatus_fault := Some (ErrorString ''connection lost'')\<rparr>"

definition custom_template_notification :: notification where
  "custom_template_notification = \<lparr>NotificationID = ''n4'', Event = example_event, User = None,
     Webhook = Some (example_webhook\<lparr>Template := ''{{ .Package.name ''\<rparr>)\<rparr>"

definition server_error_worker :: worker where
  "server_error_worker = example_worker\<lparr>httpClient_Do := (\<lambda>req. Inr 500)\<rparr>"

definition broken_template_worker :: worker where
  "broken_template_worker = example_worker\<lparr>
     ES := Some (\<lambda>d. None),
     newReleaseEmailTmpl := (\<lambda>d. Inl (ErrorString ''template: error calling index''))\<rparr>"

definition sending_worker :: worker where
  "sending_worker = example_worker\<lparr>ES := Some (\<lambda>d. None)\<rparr>"

definition scanning_errors_notification :: notification where
  "scanning_errors_notification = \<lparr>NotificationID = ''n5'',
     Event = example_event\<lparr>EventKind := RepositoryScanningErrors\<rparr>,
     User = Some example_user, Webhook = None\<rparr>"

definition empty_queue :: world where
  "empty_queue = \<lparr>db = [], cache = Map.empty, trace = []\<rparr>"

definition store_down_worker :: worker where
  "store_down_worker = example_worker\<lparr>GetPending_fault := Some (ErrorString ''connection refused'')\<rparr>"

lemmas example_defs = example_worker_def example_package_def example_repository_def example_event_def
  example_user_def example_webhook_def webhook_notification_def email_notification_def
  untargeted_notification_def pending_def

lemmas code_defs = processNotification_def DBTransact_def processNotification_tx_def deliver_def
  deliverWebhookNotification_def webhookRequest_def DefaultWebhookPayloadTmpl_def
  deliverEmailNotification_def prepareEmailData_def repoEmailData_def
  preparePkgNotificationTemplateData_def prepareRepoNotificationTemplateData_def
  NotificationManager_GetPending_def NotificationManager_UpdateStatus_def emit_def err_of_def
  errors_Is_def new_effects_def Let_def

section \<open>Frame properties of the delivery path\<close>

text \<open>
  Preparing data touches the cache only; a delivery leaves the queue alone and adds
  nothing to the trace but its own calls to the recipient.
\<close>

lemma preparePkg_frame:
  "preparePkgNotificationTemplateData w e s = (r, s') \<Longrightarrow> db s' = db s \<and> trace s' = trace s"
  by (auto simp: preparePkgNotificationTemplateData_def Let_def split: option.splits cache_value.splits sum.splits)

lemma prepareRepo_frame:
  "prepareRepoNotificationTemplateData w e s = (r, s') \<Longrightarrow> db s' = db s \<and> trace s' = trace s"
  by (auto simp: prepareRepoNotificationTemplateData_def Let_def split: option.splits cache_value.splits sum.splits)

lemma repoEmailData_frame:
  "repoEmailData w e s subj t = (r, s') \<Longrightarrow> db s' = db s \<and> trace s' = trace s"
  by (auto simp: repoEmailData_def split: prod.splits result.splits sum.splits dest: prepareRepo_frame)

lemma prepareEmailData_frame:
  "prepareEmailData w e s = (r, s') \<Longrightarrow> db s' = db s \<and> trace s' = trace s"
  by (auto simp: prepareEmailData_def split: event_kind.splits prod.splits result.splits sum.splits
      dest: preparePkg_frame repoEmailData_frame)

lemma deliverEmail_frame:
  "deliverEmailNotification w n s = (r, s') \<Longrightarrow>
     db s' = db s \<and> (\<exists>es. trace s' = trace s @ es \<and> (\<forall>x\<in>set es. is_delivery x))"
  by (auto simp: deliverEmailNotification_def Let_def emit_def is_delivery_def
      split: option.splits cache_value.splits prod.splits result.splits
      dest: prepareEmailData_frame)

lemma deliverWebhook_frame:
  "deliverWebhookNotification w n s = (r, s') \<Longrightarrow>
     db s' = db s \<and> (\<exists>es. trace s' = trace s @ es \<and> (\<forall>x\<in>set es. is_delivery x))"
  by (auto simp: deliverWebhookNotification_def Let_def emit_def is_delivery_def
      split: option.splits prod.splits result.splits sum.splits if_splits
      dest: preparePkg_frame)

lemma deliver_frame:
  "deliver w n s = (r, s') \<Longrightarrow>
     db s' = db s \<and> (\<exists>es. trace s' = trace s @ es \<and> (\<forall>x\<in>set es. is_delivery x))"
  by (auto simp: deliver_def split: if_splits dest: deliverEmail_frame deliverWebhook_frame)

lemma GetPending_claimed:
  "NotificationManager_GetPending w rows = Inr n \<Longrightarrow>
     \<exists>row\<in>set rows. row_notification row = n \<and> \<not> row_processed row"
  by (auto simp: NotificationManager_GetPending_def find_Some_iff split: option.splits)

lemma errors_Is_None [simp]: "\<not> errors_Is None target"
  by (simp add: errors_Is_def)

lemma processNotification_retryable:
  assumes gp: "NotificationManager_GetPending w (db st) = Inr n"
    and d: "deliver w n (emit CallGetPending (emit TxBegin st)) = (Err e, st2)"
    and re: "errors_Is (Some e) ErrRetryable"
  shows "processNotification w st =
           (Err e, emit TxRollback
                     ((emit (Log ''processNotification: error delivering notification'' (Some e)) st2)
                        \<lparr>db := db st\<rparr>))"
  using gp d re
  by (simp add: processNotification_def DBTransact_def processNotification_tx_def Let_def
      emit_def err_of_def)

lemma processNotification_update:
  assumes gp: "NotificationManager_GetPending w (db st) = Inr n"
    and d: "deliver w n (emit CallGetPending (emit TxBegin st)) = (r, st2)"
    and nr: "\<not> errors_Is (err_of r) ErrRetryable"
    and np: "\<forall>m. r \<noteq> Panic m"
  shows "fst (processNotification w st) = Ok ()"
    and "trace (snd (processNotification w st)) =
           trace st2 @ [CallUpdateStatus (NotificationID n) True (err_of r)]
             @ (case UpdateStatus_fault w of None \<Rightarrow> []
                | Some e' \<Rightarrow> [Log ''processNotification: error updating notification status'' (Some e')])
             @ [TxCommit]"
    and "db (snd (processNotification w st)) =
           snd (NotificationManager_UpdateStatus w (db st) (NotificationID n) True (err_of r))"
    and "cache (snd (processNotification w st)) = cache st2"
proof -
  from deliver_frame [OF d] have dbs: "db st2 = db st" by (simp add: emit_def)
  show "fst (processNotification w st) = Ok ()"
    using gp d nr np
    by (cases r) (auto simp: processNotification_def DBTransact_def processNotification_tx_def Let_def
        emit_def split: prod.splits option.splits)
  show "trace (snd (processNotification w st)) =
           trace st2 @ [CallUpdateStatus (NotificationID n) True (err_of r)]
             @ (case UpdateStatus_fault w of None \<Rightarrow> []
                | Some e' \<Rightarrow> [Log ''processNotification: error updating notification status'' (Some e')])
             @ [TxCommit]"
    using gp d nr np
    by (cases r) (auto simp: processNotification_def DBTransact_def processNotification_tx_def Let_def
        emit_def NotificationManager_UpdateStatus_def split: prod.splits option.splits)
  show "db (snd (processNotification w st)) =
           snd (NotificationManager_UpdateStatus w (db st) (NotificationID n) True (err_of r))"
    using gp d nr np dbs
    by (cases r) (auto simp: processNotification_def DBTransact_def processNotification_tx_def Let_def
        emit_def split: prod.splits option.splits)
  show "cache (snd (processNotification w st)) = cache st2"
    using gp d nr np
    by (cases r) (auto simp: processNotification_def DBTransact_def processNotification_tx_def Let_def
        emit_def split: prod.splits option.splits)
qed

lemma UpdateStatus_marks:
  assumes "UpdateStatus_fault w = None"
    and "\<exists>row\<in>set rows. row_notification row = n"
  shows "(\<exists>row\<in>set (snd (NotificationManager_UpdateStatus w rows (NotificationID n) True err)).
            row_notification row = n)
       \<and> (\<forall>row\<in>set (snd (NotificationManager_UpdateStatus w rows (NotificationID n) True err)).
            NotificationID (row_notification row) = NotificationID n \<longrightarrow>
            row_processed row \<and> row_error row = (case err of None \<Rightarrow> [] | Some e \<Rightarrow> Error e))"
proof -
  from assms(2) obtain row where row: "row \<in> set rows" "row_notification row = n" by blast
  let ?f = "\<lambda>r. if NotificationID (row_notification r) = NotificationID n
                    then r\<lparr>row_processed := True,
                           row_error := (case err of None \<Rightarrow> [] | Some e \<Rightarrow> Error e)\<rparr>
                    else r"
  have eq: "snd (NotificationManager_UpdateStatus w rows (NotificationID n) True err) = map ?f rows"
    using assms(1) by (simp add: NotificationManager_UpdateStatus_def)
  have "?f row \<in> set (map ?f rows)" using row(1) unfolding set_map by (rule imageI)
  moreover have "row_notification (?f row) = n" using row(2) by simp
  ultimately have ex: "\<exists>r\<in>set (map ?f rows). row_notification r = n" by blast
  have all: "\<forall>r\<in>set (map ?f rows). NotificationID (row_notification r) = NotificationID n \<longrightarrow>
            row_processed r \<and> row_error r = (case err of None \<Rightarrow> [] | Some e \<Rightarrow> Error e)"
    by (auto split: if_splits)
  show ?thesis unfolding eq using ex all by blast
qed

lemma UpdateStatus_fails_writes_nothing:
  "UpdateStatus_fault w = Some e \<Longrightarrow>
     snd (NotificationManager_UpdateStatus w rows nid p err) = rows"
  by (simp add: NotificationManager_UpdateStatus_def)

lemma deliver_no_sender:
  "User n \<noteq> None \<Longrightarrow> ES w = None \<Longrightarrow> deliver w n s = (Err ErrSenderNotAvailable, s)"
  by (simp add: deliver_def)

lemma deliver_no_target:
  "User n = None \<Longrightarrow> Webhook n = None \<Longrightarrow> deliver w n s = (Ok (), s)"
  by (simp add: deliver_def)

section \<open>Claims about the dequeue transaction\<close>

text \<open>
  C1. When the delivery of a claimed notification returns an error tagged retryable,
  \<open>processNotification\<close> hands that error back, the transaction is rolled back and never
  committed, \<open>UpdateStatus\<close> is not called, the queue is as it was (the row is still
  unprocessed, no error text has been written) and the next \<open>GetPending\<close> claims the same
  notification again.
\<close>

theorem C1_retryable_leaves_row_unprocessed:
  assumes "NotificationManager_GetPending w (db st) = Inr n"
    and "deliver w n (emit CallGetPending (emit TxBegin st)) = (Err e, st2)"
    and "errors_Is (Some e) ErrRetryable"
  shows "fst (processNotification w st) = Err e
       \<and> last (trace (snd (processNotification w st))) = TxRollback
       \<and> TxCommit \<notin> set (new_effects st (snd (processNotification w st)))
       \<and> (\<forall>nid p err. CallUpdateStatus nid p err \<notin> set (new_effects st (snd (processNotification w st))))
       \<and> db (snd (processNotification w st)) = db st
       \<and> (\<exists>row\<in>set (db (snd (processNotification w st))). row_notification row = n \<and> \<not> row_processed row)
       \<and> NotificationManager_GetPending w (db (snd (processNotification w st))) = Inr n"
proof -
  from deliver_frame [OF assms(2)] obtain es where
    es: "trace st2 = trace st @ [TxBegin, CallGetPending] @ es" "\<forall>x\<in>set es. is_delivery x"
    by (auto simp: emit_def)
  have pn: "processNotification w st =
           (Err e, emit TxRollback
                     ((emit (Log ''processNotification: error delivering notification'' (Some e)) st2)
                        \<lparr>db := db st\<rparr>))"
    by (rule processNotification_retryable [OF assms])
  have new: "new_effects st (snd (processNotification w st)) =
      [TxBegin, CallGetPending] @ es @ [Log ''processNotification: error delivering notification'' (Some e), TxRollback]"
    by (simp add: pn new_effects_def emit_def es)
  have noupd: "\<forall>nid p err. CallUpdateStatus nid p err \<notin> set es" "TxCommit \<notin> set es"
    using es(2) by (auto simp: is_delivery_def)
  have dbs: "db (snd (processNotification w st)) = db st"
    by (simp add: pn emit_def)
  show ?thesis
    using noupd GetPending_claimed [OF assms(1)] assms(1)
    by (simp add: new dbs) (simp add: pn emit_def)
qed

theorem C1_witness:
  "NotificationManager_GetPending failing_package_worker (db (pending webhook_notification))
     = Inr webhook_notification
   \<and> deliver failing_package_worker webhook_notification
        (emit CallGetPending (emit TxBegin (pending webhook_notification)))
     = (Err (WrapError ''retryable error: connection reset'' ErrRetryable),
        emit CallGetPending (emit TxBegin (pending webhook_notification)))
   \<and> errors_Is (Some (WrapError ''retryable error: connection reset'' ErrRetryable)) ErrRetryable
   \<and> fst (processNotification failing_package_worker (pending webhook_notification))
       = Err (WrapError ''retryable error: connection reset'' ErrRetryable)
   \<and> db (snd (processNotification failing_package_worker (pending webhook_notification)))
       = [\<lparr>row_notification = webhook_notification, row_processed = False, row_error = []\<rparr>]"
  using C1_retryable_leaves_row_unprocessed [of failing_package_worker "pending webhook_notification"
      webhook_notification "WrapError ''retryable error: connection reset'' ErrRetryable"
      "emit CallGetPending (emit TxBegin (pending webhook_notification))"]
  by (simp add: failing_package_worker_def example_defs code_defs)

text \<open>
  C2. When the delivery of a claimed notification returns no error, or an error that is
  not tagged retryable, \<open>processNotification\<close> calls \<open>UpdateStatus\<close> with \<open>processed = true\<close>
  and the delivery error (nil on success), returns nil, and the transaction is committed and
  not rolled back. When the update goes through, the claimed row is in the queue with
  \<open>processed = true\<close> and the error's text (the empty text on success).
\<close>

theorem C2_final_outcome_marks_processed:
  assumes "NotificationManager_GetPending w (db st) = Inr n"
    and "deliver w n (emit CallGetPending (emit TxBegin st)) = (r, st2)"
    and "\<not> errors_Is (err_of r) ErrRetryable"
    and "\<forall>m. r \<noteq> Panic m"
  shows "fst (processNotification w st) = Ok ()
       \<and> new_effects st2 (snd (processNotification w st)) =
           [CallUpdateStatus (NotificationID n) True (err_of r)]
             @ (case UpdateStatus_fault w of None \<Rightarrow> []
                | Some e' \<Rightarrow> [Log ''processNotification: error updating notification status'' (Some e')])
             @ [TxCommit]
       \<and> TxRollback \<notin> set (new_effects st (snd (processNotification w st)))
       \<and> (UpdateStatus_fault w = None \<longrightarrow>
            (\<exists>row\<in>set (db (snd (processNotification w st))). row_notification row = n)
          \<and> (\<forall>row\<in>set (db (snd (processNotification w st))).
               NotificationID (row_notification row) = NotificationID n \<longrightarrow>
               row_processed row
               \<and> row_error row = (case err_of r of None \<Rightarrow> [] | Some e \<Rightarrow> Error e)))"
proof -
  note upd = processNotification_update [OF assms]
  from deliver_frame [OF assms(2)] obtain es where
    es: "trace st2 = trace st @ [TxBegin, CallGetPending] @ es" "\<forall>x\<in>set es. is_delivery x"
    by (auto simp: emit_def)
  have norb: "TxRollback \<notin> set es" using es(2) by (auto simp: is_delivery_def)
  have a: "new_effects st2 (snd (processNotification w st)) =
           [CallUpdateStatus (NotificationID n) True (err_of r)]
             @ (case UpdateStatus_fault w of None \<Rightarrow> []
                | Some e' \<Rightarrow> [Log ''processNotification: error updating notification status'' (Some e')])
             @ [TxCommit]"
    by (simp add: new_effects_def upd(2))
  have b: "TxRollback \<notin> set (new_effects st (snd (processNotification w st)))"
    using norb by (simp add: new_effects_def upd(2) es(1) split: option.splits)
  have c: "UpdateStatus_fault w = None \<longrightarrow>
            (\<exists>row\<in>set (db (snd (processNotification w st))). row_notification row = n)
          \<and> (\<forall>row\<in>set (db (snd (processNotification w st))).
               NotificationID (row_notification row) = NotificationID n \<longrightarrow>
               row_processed row
               \<and> row_error row = (case err_of r of None \<Rightarrow> [] | Some e \<Rightarrow> Error e))"
  proof
    assume nf: "UpdateStatus_fault w = None"
    from GetPending_claimed [OF assms(1)] have "\<exists>row\<in>set (db st). row_notification row = n" by blast
    from UpdateStatus_marks [OF nf this, of "err_of r"] show
      "(\<exists>row\<in>set (db (snd (processNotification w st))). row_notification row = n)
          \<and> (\<forall>row\<in>set (db (snd (processNotification w st))).
               NotificationID (row_notification row) = NotificationID n \<longrightarrow>
               row_processed row
               \<and> row_error row = (case err_of r of None \<Rightarrow> [] | Some e \<Rightarrow> Error e))"
      unfolding upd(3) .
  qed
  from upd(1) a b c show ?thesis by blast
qed

theorem C2_witness:
  "NotificationManager_GetPending example_worker (db (pending custom_template_notification))
     = Inr custom_template_notification
   \<and> fst (deliver example_worker custom_template_notification
        (emit CallGetPending (emit TxBegin (pending custom_template_notification))))
     = Err (ErrorString ''template: unexpected EOF'')
   \<and> \<not> errors_Is (Some (ErrorString ''template: unexpected EOF'')) ErrRetryable
   \<and> UpdateStatus_fault example_worker = None
   \<and> fst (processNotification example_worker (pending custom_template_notification)) = Ok ()
   \<and> db (snd (processNotification example_worker (pending custom_template_notification)))
       = [\<lparr>row_notification = custom_template_notification, row_processed = True,
           row_error = ''template: unexpected EOF''\<rparr>]"
  using C2_final_outcome_marks_processed [of example_worker "pending custom_template_notification"
      custom_template_notification "Err (ErrorString ''template: unexpected EOF'')"
      "snd (deliver example_worker custom_template_notification
        (emit CallGetPending (emit TxBegin (pending custom_template_notification))))"]
  by (simp add: custom_template_notification_def example_defs code_defs)

text \<open>
  C9. A notification for a user, with no email sender configured: the delivery error is
  \<open>ErrSenderNotAvailable\<close> itself, which is not tagged retryable, so \<open>UpdateStatus\<close> is called
  with it, the transaction commits, and the row ends up processed with that error's text.
\<close>

theorem C9_sender_not_available_is_terminal:
  assumes "NotificationManager_GetPending w (db st) = Inr n"
    and "User n \<noteq> None"
    and "ES w = None"
  shows "fst (deliver w n (emit CallGetPending (emit TxBegin st))) = Err ErrSenderNotAvailable
       \<and> \<not> errors_Is (Some ErrSenderNotAvailable) ErrRetryable
       \<and> fst (processNotification w st) = Ok ()
       \<and> new_effects st (snd (processNotification w st)) =
           [TxBegin, CallGetPending,
            CallUpdateStatus (NotificationID n) True (Some ErrSenderNotAvailable)]
             @ (case UpdateStatus_fault w of None \<Rightarrow> []
                | Some e' \<Rightarrow> [Log ''processNotification: error updating notification status'' (Some e')])
             @ [TxCommit]
       \<and> (UpdateStatus_fault w = None \<longrightarrow>
            (\<exists>row\<in>set (db (snd (processNotification w st))). row_notification row = n)
          \<and> (\<forall>row\<in>set (db (snd (processNotification w st))).
               NotificationID (row_notification row) = NotificationID n \<longrightarrow>
               row_processed row \<and> row_error row = Error ErrSenderNotAvailable))"
proof -
  let ?s1 = "emit CallGetPending (emit TxBegin st)"
  have d: "deliver w n ?s1 = (Err ErrSenderNotAvailable, ?s1)"
    by (rule deliver_no_sender [OF assms(2,3)])
  have nr: "\<not> errors_Is (err_of (Err ErrSenderNotAvailable)) ErrRetryable"
    by (simp add: errors_Is_def err_of_def)
  have np: "\<forall>m. (Err ErrSenderNotAvailable :: unit result) \<noteq> Panic m" by simp
  note upd = processNotification_update [OF assms(1) d nr np]
  have tr: "new_effects st (snd (processNotification w st)) =
           [TxBegin, CallGetPending,
            CallUpdateStatus (NotificationID n) True (Some ErrSenderNotAvailable)]
             @ (case UpdateStatus_fault w of None \<Rightarrow> []
                | Some e' \<Rightarrow> [Log ''processNotification: error updating notification status'' (Some e')])
             @ [TxCommit]"
    by (simp add: new_effects_def upd(2) emit_def err_of_def)
  have rows: "UpdateStatus_fault w = None \<longrightarrow>
            (\<exists>row\<in>set (db (snd (processNotification w st))). row_notification row = n)
          \<and> (\<forall>row\<in>set (db (snd (processNotification w st))).
               NotificationID (row_notification row) = NotificationID n \<longrightarrow>
               row_processed row \<and> row_error row = Error ErrSenderNotAvailable)"
  proof
    assume nf: "UpdateStatus_fault w = None"
    from GetPending_claimed [OF assms(1)] have "\<exists>row\<in>set (db st). row_notification row = n" by blast
    from UpdateStatus_marks [OF nf this, of "Some ErrSenderNotAvailable"] show
      "(\<exists>row\<in>set (db (snd (processNotification w st))). row_notification row = n)
          \<and> (\<forall>row\<in>set (db (snd (processNotification w st))).
               NotificationID (row_notification row) = NotificationID n \<longrightarrow>
               row_processed row \<and> row_error row = Error ErrSenderNotAvailable)"
      unfolding upd(3) by (simp add: err_of_def)
  qed
  from d nr upd(1) tr rows show ?thesis by (simp add: err_of_def)
qed

theorem C9_witness:
  "NotificationManager_GetPending example_worker (db (pending email_notification)) = Inr email_notification
   \<and> User email_notification \<noteq> None
   \<and> ES example_worker = None
   \<and> UpdateStatus_fault example_worker = None
   \<and> fst (processNotification example_worker (pending email_notification)) = Ok ()
   \<and> db (snd (processNotification example_worker (pending email_notification)))
       = [\<lparr>row_notification = email_notification, row_processed = True,
           row_error = ''email sender not available''\<rparr>]"
  using C9_sender_not_available_is_terminal [of example_worker "pending email_notification"
      email_notification]
  by (simp add: example_defs code_defs)

text \<open>
  C10. A claimed notification with neither a user nor a webhook: nothing is delivered
  (the effects are the transaction, the claim and the status update only), \<open>UpdateStatus\<close>
  is called with \<open>processed = true\<close> and no error, and the transaction commits; the row ends
  up exactly as after a successful delivery.
\<close>

theorem C10_no_target_marked_processed:
  assumes "NotificationManager_GetPending w (db st) = Inr n"
    and "User n = None"
    and "Webhook n = None"
  shows "fst (processNotification w st) = Ok ()
       \<and> new_effects st (snd (processNotification w st)) =
           [TxBegin, CallGetPending, CallUpdateStatus (NotificationID n) True None]
             @ (case UpdateStatus_fault w of None \<Rightarrow> []
                | Some e' \<Rightarrow> [Log ''processNotification: error updating notification status'' (Some e')])
             @ [TxCommit]
       \<and> (\<forall>x\<in>set (new_effects st (snd (processNotification w st))). \<not> is_delivery x)
       \<and> (UpdateStatus_fault w = None \<longrightarrow>
            (\<exists>row\<in>set (db (snd (processNotification w st))). row_notification row = n)
          \<and> (\<forall>row\<in>set (db (snd (processNotification w st))).
               NotificationID (row_notification row) = NotificationID n \<longrightarrow>
               row_processed row \<and> row_error row = []))"
proof -
  let ?s1 = "emit CallGetPending (emit TxBegin st)"
  have d: "deliver w n ?s1 = (Ok (), ?s1)"
    by (rule deliver_no_target [OF assms(2,3)])
  have nr: "\<not> errors_Is (err_of (Ok ())) ErrRetryable"
    by (simp add: errors_Is_def err_of_def)
  have np: "\<forall>m. (Ok () :: unit result) \<noteq> Panic m" by simp
  note upd = processNotification_update [OF assms(1) d nr np]
  have tr: "new_effects st (snd (processNotification w st)) =
           [TxBegin, CallGetPending, CallUpdateStatus (NotificationID n) True None]
             @ (case UpdateStatus_fault w of None \<Rightarrow> []
                | Some e' \<Rightarrow> [Log ''processNotification: error updating notification status'' (Some e')])
             @ [TxCommit]"
    by (simp add: new_effects_def upd(2) emit_def err_of_def)
  have nodel: "\<forall>x\<in>set (new_effects st (snd (processNotification w st))). \<not> is_delivery x"
    unfolding tr by (cases "UpdateStatus_fault w") (simp_all add: is_delivery_def)
  have rows: "UpdateStatus_fault w = None \<longrightarrow>
            (\<exists>row\<in>set (db (snd (processNotification w st))). row_notification row = n)
          \<and> (\<forall>row\<in>set (db (snd (processNotification w st))).
               NotificationID (row_notification row) = NotificationID n \<longrightarrow>
               row_processed row \<and> row_error row = [])"
  proof
    assume nf: "UpdateStatus_fault w = None"
    from GetPending_claimed [OF assms(1)] have "\<exists>row\<in>set (db st). row_notification row = n" by blast
    from UpdateStatus_marks [OF nf this, of None] show
      "(\<exists>row\<in>set (db (snd (processNotification w st))). row_notification row = n)
          \<and> (\<forall>row\<in>set (db (snd (processNotification w st))).
               NotificationID (row_notification row) = NotificationID n \<longrightarrow>
               row_processed row \<and> row_error row = [])"
      unfolding upd(3) by (simp add: err_of_def)
  qed
  from upd(1) tr nodel rows show ?thesis by blast
qed

theorem C10_witness:
  "NotificationManager_GetPending example_worker (db (pending untargeted_notification))
     = Inr untargeted_notification
   \<and> User untargeted_notification = None
   \<and> Webhook untargeted_notification = None
   \<and> UpdateStatus_fault example_worker = None
   \<and> new_effects (pending untargeted_notification)
        (snd (processNotification example_worker (pending untargeted_notification)))
       = [TxBegin, CallGetPending, CallUpdateStatus ''n3'' True None, TxCommit]
   \<and> db (snd (processNotification example_worker (pending untargeted_notification)))
       = [\<lparr>row_notification = untargeted_notification, row_processed = True, row_error = []\<rparr>]"
  using C10_no_target_marked_processed [of example_worker "pending untargeted_notification"
      untargeted_notification]
  by (simp add: example_defs code_defs)

text \<open>
  C7, as stated ("when the status update fails, the transaction does not commit"), does
  not hold: with a store whose update fails, the function passed to \<open>DBTransact\<close> logs the
  failure and returns nil, and the transaction is committed.
\<close>

theorem C7_counterexample:
  "NotificationManager_GetPending failing_update_worker (db (pending untargeted_notification))
     = Inr untargeted_notification
   \<and> UpdateStatus_fault failing_update_worker = Some (ErrorString ''connection lost'')
   \<and> new_effects (pending untargeted_notification)
        (snd (processNotification failing_update_worker (pending untargeted_notification)))
       = [TxBegin, CallGetPending, CallUpdateStatus ''n3'' True None,
          Log ''processNotification: error updating notification status''
            (Some (ErrorString ''connection lost'')),
          TxCommit]"
  by (simp add: failing_update_worker_def example_defs code_defs)

text \<open>
  C7, amended. When the status update of a claimed notification fails, the failure is
  logged, \<open>processNotification\<close> still returns nil, and the transaction is committed, not
  rolled back. The failed update wrote nothing, so the queue is as it was and the next
  \<open>GetPending\<close> claims the same notification again.
\<close>

theorem C7_failed_update_is_logged_and_committed:
  assumes "NotificationManager_GetPending w (db st) = Inr n"
    and "deliver w n (emit CallGetPending (emit TxBegin st)) = (r, st2)"
    and "\<not> errors_Is (err_of r) ErrRetryable"
    and "\<forall>m. r \<noteq> Panic m"
    and "UpdateStatus_fault w = Some e'"
  shows "new_effects st2 (snd (processNotification w st)) =
           [CallUpdateStatus (NotificationID n) True (err_of r),
            Log ''processNotification: error updating notification status'' (Some e'),
            TxCommit]
       \<and> TxRollback \<notin> set (new_effects st (snd (processNotification w st)))
       \<and> fst (processNotification w st) = Ok ()
       \<and> db (snd (processNotification w st)) = db st
       \<and> NotificationManager_GetPending w (db (snd (processNotification w st))) = Inr n"
proof -
  note upd = processNotification_update [OF assms(1-4)]
  from deliver_frame [OF assms(2)] obtain es where
    es: "trace st2 = trace st @ [TxBegin, CallGetPending] @ es" "\<forall>x\<in>set es. is_delivery x"
    by (auto simp: emit_def)
  have norb: "TxRollback \<notin> set es" using es(2) by (auto simp: is_delivery_def)
  have a: "new_effects st2 (snd (processNotification w st)) =
           [CallUpdateStatus (NotificationID n) True (err_of r),
            Log ''processNotification: error updating notification status'' (Some e'),
            TxCommit]"
    by (simp add: new_effects_def upd(2) assms(5))
  have b: "TxRollback \<notin> set (new_effects st (snd (processNotification w st)))"
    using norb by (simp add: new_effects_def upd(2) es(1) assms(5))
  have c: "db (snd (processNotification w st)) = db st"
    unfolding upd(3) by (rule UpdateStatus_fails_writes_nothing [OF assms(5)])
  from a b upd(1) c assms(1) show ?thesis by simp
qed

theorem C7_witness:
  "NotificationManager_GetPending failing_update_worker (db (pending email_notification))
     = Inr email_notification
   \<and> deliver failing_update_worker email_notification
        (emit CallGetPending (emit TxBegin (pending email_notification)))
      = (Err ErrSenderNotAvailable, emit CallGetPending (emit TxBegin (pending email_notification)))
   \<and> \<not> errors_Is (err_of (Err ErrSenderNotAvailable)) ErrRetryable
   \<and> UpdateStatus_fault failing_update_worker = Some (ErrorString ''connection lost'')
   \<and> fst (processNotification failing_update_worker (pending email_notification)) = Ok ()
   \<and> last (trace (snd (processNotification failing_update_worker (pending email_notification))))
       = TxCommit
   \<and> db (snd (processNotification failing_update_worker (pending email_notification)))
       = [\<lparr>row_notification = email_notification, row_processed = False, row_error = []\<rparr>]"
  using C7_failed_update_is_logged_and_committed [of failing_update_worker "pending email_notification"
      email_notification "Err ErrSenderNotAvailable"
      "emit CallGetPending (emit TxBegin (pending email_notification))" "ErrorString ''connection lost''"]
  by (simp add: failing_update_worker_def example_defs code_defs)

section \<open>Claims about the delivery channels\<close>

text \<open>
  C3, as stated ("a webhook POST answered with a status of 400 or more yields a retryable
  error and the notification is not marked processed"), does not hold: the error for a
  500 answer is a plain \<open>fmt.Errorf\<close> without \<open>%w\<close>, it is not tagged retryable, and the row
  ends up processed with that error's text.
\<close>

theorem C3_counterexample:
  "NotificationManager_GetPending server_error_worker (db (pending webhook_notification))
     = Inr webhook_notification
   \<and> fst (deliver server_error_worker webhook_notification
        (emit CallGetPending (emit TxBegin (pending webhook_notification))))
       = Err (ErrorString ''unexpected status code: 500'')
   \<and> \<not> errors_Is (Some (ErrorString ''unexpected status code: 500'')) ErrRetryable
   \<and> db (snd (processNotification server_error_worker (pending webhook_notification)))
       = [\<lparr>row_notification = webhook_notification, row_processed = True,
           row_error = ''unexpected status code: 500''\<rparr>]"
  by (simp add: server_error_worker_def example_defs code_defs Itoa_def digits.simps)

lemma deliverWebhook_posted:
  assumes "Webhook n = Some wh"
    and "preparePkgNotificationTemplateData w (Event n) s = (Ok td, s1)"
    and "(if Template wh \<noteq> [] then template_Parse w (Template wh)
          else Inr DefaultWebhookPayloadTmpl) = Inr tmpl"
    and "tmpl td = Inr payload"
    and "NewRequest_ok w (URL wh)"
  shows "deliverWebhookNotification w n s =
           (case httpClient_Do w (webhookRequest wh payload) of
              Inl err \<Rightarrow> Err err
            | Inr StatusCode \<Rightarrow>
                if StatusCode \<ge> 400
                then Err (ErrorString (''unexpected status code: '' @ Itoa StatusCode))
                else Ok (),
            emit (CallHTTPDo (webhookRequest wh payload)) s1)"
  using assms
  by (simp add: deliverWebhookNotification_def Let_def split: sum.splits)

text \<open>
  C3, amended. For a webhook notification whose POST is made, a transport error comes back
  from \<open>deliverWebhookNotification\<close> as it is (so it is retryable only if the client's error
  already was), and an answer with a status of 400 or more becomes the error
  \<open>unexpected status code: <code>\<close>, which is never retryable. In both cases, unless the
  transport error was itself tagged, \<open>UpdateStatus\<close> is called with \<open>processed = true\<close> and the
  error, the transaction commits, and the row ends up processed with the error's text: the
  client's own text in the first case, the status text in the second.
\<close>

theorem C3_webhook_http_failures_are_terminal:
  assumes "NotificationManager_GetPending w (db st) = Inr n"
    and "User n = None"
    and "Webhook n = Some wh"
    and "preparePkgNotificationTemplateData w (Event n) (emit CallGetPending (emit TxBegin st))
           = (Ok td, s1)"
    and "(if Template wh \<noteq> [] then template_Parse w (Template wh)
          else Inr DefaultWebhookPayloadTmpl) = Inr tmpl"
    and "tmpl td = Inr payload"
    and "NewRequest_ok w (URL wh)"
    and "(httpClient_Do w (webhookRequest wh payload) = Inl e
            \<and> \<not> errors_Is (Some e) ErrRetryable \<and> err = e)
         \<or> (httpClient_Do w (webhookRequest wh payload) = Inr code \<and> 400 \<le> code
            \<and> err = ErrorString (''unexpected status code: '' @ Itoa code))"
  shows "fst (deliver w n (emit CallGetPending (emit TxBegin st))) = Err err
       \<and> \<not> errors_Is (Some err) ErrRetryable
       \<and> fst (processNotification w st) = Ok ()
       \<and> CallUpdateStatus (NotificationID n) True (Some err)
            \<in> set (new_effects st (snd (processNotification w st)))
       \<and> TxCommit \<in> set (new_effects st (snd (processNotification w st)))
       \<and> TxRollback \<notin> set (new_effects st (snd (processNotification w st)))
       \<and> (UpdateStatus_fault w = None \<longrightarrow>
            (\<exists>row\<in>set (db (snd (processNotification w st))). row_notification row = n)
          \<and> (\<forall>row\<in>set (db (snd (processNotification w st))).
               NotificationID (row_notification row) = NotificationID n \<longrightarrow>
               row_processed row \<and> row_error row = Error err))"
proof -
  let ?s0 = "emit CallGetPending (emit TxBegin st)"
  let ?s2 = "emit (CallHTTPDo (webhookRequest wh payload)) s1"
  have dw: "deliverWebhookNotification w n ?s0 = (Err err, ?s2)"
    using assms(8) by (auto simp: deliverWebhook_posted [OF assms(3-7)])
  have d: "deliver w n ?s0 = (Err err, ?s2)"
    using assms(2,3) dw by (simp add: deliver_def)
  have nr': "\<not> errors_Is (Some err) ErrRetryable"
    using assms(8) by (auto simp: errors_Is_def)
  then have nr: "\<not> errors_Is (err_of (Err err)) ErrRetryable" by (simp add: err_of_def)
  have np: "\<forall>m. (Err err :: unit result) \<noteq> Panic m" by simp
  note upd = processNotification_update [OF assms(1) d nr np]
  from deliver_frame [OF d] obtain es where
    es: "trace ?s2 = trace st @ [TxBegin, CallGetPending] @ es" "\<forall>x\<in>set es. is_delivery x"
    by (auto simp: emit_def)
  have norb: "TxRollback \<notin> set es" using es(2) by (auto simp: is_delivery_def)
  have new: "new_effects st (snd (processNotification w st)) =
      [TxBegin, CallGetPending] @ es @ [CallUpdateStatus (NotificationID n) True (Some err)]
        @ (case UpdateStatus_fault w of None \<Rightarrow> []
           | Some e' \<Rightarrow> [Log ''processNotification: error updating notification status'' (Some e')])
        @ [TxCommit]"
    by (simp add: new_effects_def upd(2) es(1) err_of_def)
  have rows: "UpdateStatus_fault w = None \<longrightarrow>
            (\<exists>row\<in>set (db (snd (processNotification w st))). row_notification row = n)
          \<and> (\<forall>row\<in>set (db (snd (processNotification w st))).
               NotificationID (row_notification row) = NotificationID n \<longrightarrow>
               row_processed row \<and> row_error row = Error err)"
  proof
    assume nf: "UpdateStatus_fault w = None"
    from GetPending_claimed [OF assms(1)] have "\<exists>row\<in>set (db st). row_notification row = n" by blast
    from UpdateStatus_marks [OF nf this, of "Some err"] show
      "(\<exists>row\<in>set (db (snd (processNotification w st))). row_notification row = n)
          \<and> (\<forall>row\<in>set (db (snd (processNotification w st))).
               NotificationID (row_notification row) = NotificationID n \<longrightarrow>
               row_processed row \<and> row_error row = Error err)"
      unfolding upd(3) by (simp add: err_of_def)
  qed
  have c: "CallUpdateStatus (NotificationID n) True (Some err)
            \<in> set (new_effects st (snd (processNotification w st)))"
    and t: "TxCommit \<in> set (new_effects st (snd (processNotification w st)))"
    and r: "TxRollback \<notin> set (new_effects st (snd (processNotification w st)))"
    using norb by (simp_all add: new split: option.splits)
  from d nr' upd(1) c t r rows show ?thesis by simp
qed

theorem C3_witness:
  "NotificationManager_GetPending server_error_worker (db (pending webhook_notification))
     = Inr webhook_notification
   \<and> User webhook_notification = None
   \<and> Webhook webhook_notification = Some example_webhook
   \<and> fst (preparePkgNotificationTemplateData server_error_worker (Event webhook_notification)
        (emit CallGetPending (emit TxBegin (pending webhook_notification))))
       = Ok (pkgTemplateData server_error_worker example_event example_package)
   \<and> NewRequest_ok server_error_worker (URL example_webhook)
   \<and> httpClient_Do server_error_worker
        (webhookRequest example_webhook
           (DefaultWebhookPayload (pkgTemplateData server_error_worker example_event example_package)))
       = Inr 500
   \<and> UpdateStatus_fault server_error_worker = None
   \<and> Itoa 500 = ''500''
   \<and> db (snd (processNotification server_error_worker (pending webhook_notification)))
       = [\<lparr>row_notification = webhook_notification, row_processed = True,
           row_error = ''unexpected status code: 500''\<rparr>]"
  using C3_webhook_http_failures_are_terminal [of server_error_worker "pending webhook_notification"
      webhook_notification example_webhook
      "pkgTemplateData server_error_worker example_event example_package"
      "snd (preparePkgNotificationTemplateData server_error_worker (Event webhook_notification)
        (emit CallGetPending (emit TxBegin (pending webhook_notification))))"
      DefaultWebhookPayloadTmpl
      "DefaultWebhookPayload (pkgTemplateData server_error_worker example_event example_package)"
      "ErrorString ''none''" "ErrorString ''unexpected status code: 500''" 500]
  by (simp add: server_error_worker_def example_defs code_defs Itoa_def digits.simps)

text \<open>
  C4, as stated ("an error of the email body template is terminal, so the notification is
  marked processed with the error"), does not hold: \<open>deliverEmailNotification\<close> wraps every
  error of \<open>prepareEmailData\<close>, the template's included, as retryable, and the row stays
  unprocessed.
\<close>

theorem C4_counterexample:
  "NotificationManager_GetPending broken_template_worker (db (pending email_notification))
     = Inr email_notification
   \<and> email_template_result broken_template_worker (Event email_notification)
        (emit CallGetPending (emit TxBegin (pending email_notification)))
       = Some (Inl (ErrorString ''template: error calling index''))
   \<and> fst (processNotification broken_template_worker (pending email_notification))
       = Err (WrapError
           ''retryable error: error preparing email data: template: error calling index''
           ErrRetryable)
   \<and> errors_Is (Some (WrapError
           ''retryable error: error preparing email data: template: error calling index''
           ErrRetryable)) ErrRetryable
   \<and> db (snd (processNotification broken_template_worker (pending email_notification)))
       = [\<lparr>row_notification = email_notification, row_processed = False, row_error = []\<rparr>]"
  by (simp add: broken_template_worker_def example_defs code_defs email_template_result_def)

lemma prepareEmailData_template_error:
  assumes "email_template_result w e s = Some (Inl err)"
  shows "fst (prepareEmailData w e s) = Err err"
  using assms
  by (auto simp: email_template_result_def prepareEmailData_def repoEmailData_def
      split: event_kind.splits prod.splits result.splits)

text \<open>
  C4, amended. For an email notification whose email data is not in the cache, an error
  raised by executing the body template of the event's kind comes back wrapped as
  \<open>retryable error: error preparing email data: <error>\<close>, tagged retryable; no email is
  sent, \<open>UpdateStatus\<close> is not called, the transaction is rolled back, the queue is as it was
  and the notification is claimed again by the next \<open>GetPending\<close>.
\<close>

theorem C4_email_template_errors_are_retried:
  assumes "NotificationManager_GetPending w (db st) = Inr n"
    and "User n = Some u"
    and "ES w = Some send"
    and "cache st (''emailData.%'' @ EventID (Event n)) = None"
    and "email_template_result w (Event n) (emit CallGetPending (emit TxBegin st)) = Some (Inl err)"
  shows "fst (processNotification w st) =
           Err (WrapError (''retryable error: error preparing email data: '' @ Error err) ErrRetryable)
       \<and> errors_Is
           (Some (WrapError (''retryable error: error preparing email data: '' @ Error err) ErrRetryable))
           ErrRetryable
       \<and> (\<forall>nid p e. CallUpdateStatus nid p e \<notin> set (new_effects st (snd (processNotification w st))))
       \<and> (\<forall>d. CallSendEmail d \<notin> set (new_effects st (snd (processNotification w st))))
       \<and> TxCommit \<notin> set (new_effects st (snd (processNotification w st)))
       \<and> TxRollback \<in> set (new_effects st (snd (processNotification w st)))
       \<and> db (snd (processNotification w st)) = db st
       \<and> NotificationManager_GetPending w (db (snd (processNotification w st))) = Inr n"
proof -
  let ?s0 = "emit CallGetPending (emit TxBegin st)"
  let ?e = "WrapError (''retryable error: error preparing email data: '' @ Error err) ErrRetryable"
  obtain s1 where pe: "prepareEmailData w (Event n) ?s0 = (Err err, s1)"
    using prepareEmailData_template_error [OF assms(5)] by (cases "prepareEmailData w (Event n) ?s0") simp
  from prepareEmailData_frame [OF pe] have tr1: "trace s1 = trace st @ [TxBegin, CallGetPending]"
    by (simp add: emit_def)
  have c0: "cache ?s0 (''emailData.%'' @ EventID (Event n)) = None"
    using assms(4) by (simp add: emit_def)
  have de: "deliverEmailNotification w n ?s0 = (Err ?e, s1)"
    using c0 pe by (simp add: deliverEmailNotification_def Let_def)
  have d: "deliver w n ?s0 = (Err ?e, s1)"
    using assms(2,3) de by (simp add: deliver_def)
  have re: "errors_Is (Some ?e) ErrRetryable" by (simp add: errors_Is_def)
  have pn: "processNotification w st =
           (Err ?e, emit TxRollback
                     ((emit (Log ''processNotification: error delivering notification'' (Some ?e)) s1)
                        \<lparr>db := db st\<rparr>))"
    by (rule processNotification_retryable [OF assms(1) d re])
  have new: "new_effects st (snd (processNotification w st)) =
      [TxBegin, CallGetPending,
       Log ''processNotification: error delivering notification'' (Some ?e), TxRollback]"
    by (simp add: pn new_effects_def emit_def tr1)
  have dbs: "db (snd (processNotification w st)) = db st"
    by (simp add: pn emit_def)
  show ?thesis
    using re assms(1) by (simp add: new dbs) (simp add: pn)
qed

theorem C4_witness:
  "NotificationManager_GetPending broken_template_worker (db (pending email_notification))
     = Inr email_notification
   \<and> User email_notification = Some example_user
   \<and> (\<exists>send. ES broken_template_worker = Some send)
   \<and> cache (pending email_notification) (''emailData.%'' @ EventID (Event email_notification)) = None
   \<and> email_template_result broken_template_worker (Event email_notification)
        (emit CallGetPending (emit TxBegin (pending email_notification)))
       = Some (Inl (ErrorString ''template: error calling index''))
   \<and> new_effects (pending email_notification)
        (snd (processNotification broken_template_worker (pending email_notification)))
       = [TxBegin, CallGetPending,
          Log ''processNotification: error delivering notification''
            (Some (WrapError
               ''retryable error: error preparing email data: template: error calling index''
               ErrRetryable)),
          TxRollback]
   \<and> db (snd (processNotification broken_template_worker (pending email_notification)))
       = db (pending email_notification)"
  using C4_email_template_errors_are_retried [of broken_template_worker "pending email_notification"
      email_notification example_user "\<lambda>d. None" "ErrorString ''template: error calling index''"]
  by (simp add: broken_template_worker_def example_defs code_defs email_template_result_def)

section \<open>Claims about the payload cache\<close>

text \<open>
  C8. The keys the worker uses are \<open>emailData.%\<close>, \<open>package.%\<close> and \<open>repository.%\<close> followed
  by the event id: each literal ends in a percent sign, so for the event \<open>e1\<close> the cache
  holds \<open>emailData.%e1\<close>, \<open>package.%e1\<close> and \<open>repository.%e1\<close>, and none of \<open>emailData.e1\<close>,
  \<open>package.e1\<close>, \<open>repository.e1\<close>.
\<close>

theorem C8_cache_keys_for_event_e1:
  "dom (cache (snd (processNotification sending_worker (pending email_notification))))
     = {''emailData.%e1'', ''package.%e1''}
   \<and> dom (cache (snd (processNotification sending_worker (pending scanning_errors_notification))))
     = {''emailData.%e1'', ''repository.%e1''}
   \<and> EventID (Event email_notification) = ''e1''
   \<and> EventID (Event scanning_errors_notification) = ''e1''
   \<and> ''emailData.'' @ ''e1'' \<notin> dom (cache (snd (processNotification sending_worker (pending email_notification))))
   \<and> ''package.'' @ ''e1'' \<notin> dom (cache (snd (processNotification sending_worker (pending email_notification))))
   \<and> ''repository.'' @ ''e1''
        \<notin> dom (cache (snd (processNotification sending_worker (pending scanning_errors_notification))))"
  by (simp add: sending_worker_def scanning_errors_notification_def example_defs code_defs)

text \<open>
  With or without the percent sign, keys of different kinds differ and a key determines
  its event id.
\<close>

lemma cache_keys_do_not_collide:
  "''emailData.%'' @ a \<noteq> ''package.%'' @ b"
  "''emailData.%'' @ a \<noteq> ''repository.%'' @ b"
  "''package.%'' @ a \<noteq> ''repository.%'' @ b"
  "(''emailData.%'' @ a = ''emailData.%'' @ b) = (a = b)"
  "(''package.%'' @ a = ''package.%'' @ b) = (a = b)"
  "(''repository.%'' @ a = ''repository.%'' @ b) = (a = b)"
  by simp_all

section \<open>Claims about the worker loop\<close>

lemma select_timer:
  "ctx = None \<or> (\<exists>c. ctx = Some c \<and> now + d < c) \<Longrightarrow>
     select_After_or_Done w d ctx now = (TimerCase, now + d)"
  by (auto simp: select_After_or_Done_def)

lemma select_done:
  "ctx = Some c \<Longrightarrow> c < now + d \<Longrightarrow> select_After_or_Done w d ctx now = (DoneCase, max c now)"
  by (simp add: select_After_or_Done_def)

text \<open>
  When the cancellation falls on the very instant the timer fires, the pause has been waited
  out in full, and whether \<open>Run\<close> returns or starts another iteration is the runtime's choice.
\<close>

lemma select_tie:
  "select_After_or_Done w d (Some (now + d)) now
     = (if done_wins_tie w then DoneCase else TimerCase, now + d)"
  by (simp add: select_After_or_Done_def)

text \<open>
  C6. One iteration of \<open>Run\<close>, started at \<open>now\<close>; \<open>t\<close> is the instant at which
  \<open>processNotification\<close> has answered. The pauses are 30 and 10 seconds.
  If the answer is "no pending notification", the next iteration starts at \<open>t\<close> plus the
  empty-queue pause when the context is not cancelled before then, and \<open>Run\<close> returns at the
  instant of the cancellation (at once, if it was cancelled already), before the pause is
  over, when it is. Any other error (those not tagged retryable among them) does the same
  with the error pause. On success there is no pause: the next iteration starts at \<open>t\<close>,
  unless the context is cancelled by then, in which case \<open>Run\<close> returns at \<open>t\<close>.
\<close>

theorem C6_pauses_and_cancellation:
  assumes "processNotification w st = (r, st')"
    and "t = now + elapsed w now"
  shows "pauseOnEmptyQueue = 30 * 1000000000 \<and> pauseOnError = 10 * 1000000000
    \<and> (\<forall>e. r = Err e \<and> errors_Is (Some e) ErrNoRows \<longrightarrow>
          ((ctx = None \<or> (\<exists>c. ctx = Some c \<and> t + pauseOnEmptyQueue < c)) \<longrightarrow>
             Run (Suc k) w ctx st now = Run k w ctx st' (t + pauseOnEmptyQueue))
        \<and> (\<forall>c. ctx = Some c \<and> c < t + pauseOnEmptyQueue \<longrightarrow>
             Run (Suc k) w ctx st now = Some (Ok (), st', max c t)
             \<and> max c t < t + pauseOnEmptyQueue))
    \<and> (\<forall>e. r = Err e \<and> \<not> errors_Is (Some e) ErrNoRows \<longrightarrow>
          ((ctx = None \<or> (\<exists>c. ctx = Some c \<and> t + pauseOnError < c)) \<longrightarrow>
             Run (Suc k) w ctx st now = Run k w ctx st' (t + pauseOnError))
        \<and> (\<forall>c. ctx = Some c \<and> c < t + pauseOnError \<longrightarrow>
             Run (Suc k) w ctx st now = Some (Ok (), st', max c t)
             \<and> max c t < t + pauseOnError))
    \<and> (r = Ok () \<longrightarrow>
          (\<not> ctx_Done ctx t \<longrightarrow> Run (Suc k) w ctx st now = Run k w ctx st' t)
        \<and> (ctx_Done ctx t \<longrightarrow> Run (Suc k) w ctx st now = Some (Ok (), st', t)))"
proof -
  have dur: "pauseOnEmptyQueue = 30 * 1000000000 \<and> pauseOnError = 10 * 1000000000"
    by (simp add: pauseOnEmptyQueue_def pauseOnError_def Second_def)
  have pos: "0 < pauseOnEmptyQueue" "0 < pauseOnError"
    by (simp_all add: pauseOnEmptyQueue_def pauseOnError_def Second_def)
  have empty: "Run (Suc k) w ctx st now = Run k w ctx st' (t + pauseOnEmptyQueue)"
    if "r = Err e" "errors_Is (Some e) ErrNoRows"
       "ctx = None \<or> (\<exists>c. ctx = Some c \<and> t + pauseOnEmptyQueue < c)" for e
    using that assms by (simp add: select_timer Let_def)
  have empty_cancel: "Run (Suc k) w ctx st now = Some (Ok (), st', max c t)
             \<and> max c t < t + pauseOnEmptyQueue"
    if "r = Err e" "errors_Is (Some e) ErrNoRows" "ctx = Some c" "c < t + pauseOnEmptyQueue" for e c
    using that assms pos by (simp add: select_done Let_def)
  have error: "Run (Suc k) w ctx st now = Run k w ctx st' (t + pauseOnError)"
    if "r = Err e" "\<not> errors_Is (Some e) ErrNoRows"
       "ctx = None \<or> (\<exists>c. ctx = Some c \<and> t + pauseOnError < c)" for e
    using that assms by (simp add: select_timer Let_def)
  have error_cancel: "Run (Suc k) w ctx st now = Some (Ok (), st', max c t)
             \<and> max c t < t + pauseOnError"
    if "r = Err e" "\<not> errors_Is (Some e) ErrNoRows" "ctx = Some c" "c < t + pauseOnError" for e c
    using that assms pos by (simp add: select_done Let_def)
  have ok: "(\<not> ctx_Done ctx t \<longrightarrow> Run (Suc k) w ctx st now = Run k w ctx st' t)
        \<and> (ctx_Done ctx t \<longrightarrow> Run (Suc k) w ctx st now = Some (Ok (), st', t))"
    if "r = Ok ()"
    using that assms by (simp add: Let_def)
  show ?thesis
    using dur empty empty_cancel error error_cancel ok by blast
qed

theorem C6_witness:
  "processNotification example_worker empty_queue
     = (Err ErrNoRows, empty_queue\<lparr>trace := [TxBegin, CallGetPending, TxRollback]\<rparr>)
   \<and> errors_Is (Some ErrNoRows) ErrNoRows
   \<and> Run 1 example_worker (Some 5000000000) empty_queue 0
       = Some (Ok (), empty_queue\<lparr>trace := [TxBegin, CallGetPending, TxRollback]\<rparr>, 5000000000)
   \<and> Run 2 example_worker (Some 45000000000) empty_queue 0
       = Some (Ok (),
           empty_queue\<lparr>trace := [TxBegin, CallGetPending, TxRollback,
                                    TxBegin, CallGetPending, TxRollback]\<rparr>,
           45000000000)
   \<and> fst (processNotification store_down_worker empty_queue) = Err (ErrorString ''connection refused'')
   \<and> \<not> errors_Is (Some (ErrorString ''connection refused'')) ErrNoRows
   \<and> Run 1 store_down_worker (Some 3000000000) empty_queue 0
       = Some (Ok (), snd (processNotification store_down_worker empty_queue), 3000000000)
   \<and> fst (processNotification example_worker (pending untargeted_notification)) = Ok ()
   \<and> ctx_Done (Some 0) 0
   \<and> Run 1 example_worker (Some 0) (pending untargeted_notification) 0
       = Some (Ok (), snd (processNotification example_worker (pending untargeted_notification)), 0)"
  using
    C6_pauses_and_cancellation [of example_worker empty_queue "Err ErrNoRows"
      "empty_queue\<lparr>trace := [TxBegin, CallGetPending, TxRollback]\<rparr>" 0 0 "Some 5000000000" 0]
    C6_pauses_and_cancellation [of example_worker empty_queue "Err ErrNoRows"
      "empty_queue\<lparr>trace := [TxBegin, CallGetPending, TxRollback]\<rparr>" 0 0 "Some 45000000000" 1]
    C6_pauses_and_cancellation [of store_down_worker empty_queue
      "Err (ErrorString ''connection refused'')"
      "snd (processNotification store_down_worker empty_queue)" 0 0 "Some 3000000000" 0]
    C6_pauses_and_cancellation [of example_worker "pending untargeted_notification" "Ok ()"
      "snd (processNotification example_worker (pending untargeted_notification))" 0 0 "Some 0" 0]
  by (simp add: store_down_worker_def empty_queue_def example_defs code_defs ctx_Done_def
      select_After_or_Done_def numeral_2_eq_2
      pauseOnEmptyQueue_def pauseOnError_def Second_def)

section \<open>Claims about the default webhook payload\<close>

text \<open>
  Reading the rendered text back. The parser is run by rewriting: whitespace, an opening
  brace and an opening quote are handled by the three rules below, a rendered flag and the
  rendered change list by one rule each.
\<close>

lemma prepend_Some [simp]: "prepend p (Some (s, r)) = Some (p @ s, r)"
  by (simp add: prepend_def)

lemma prepend_None [simp]: "prepend p None = None"
  by (simp add: prepend_def)

lemma parse_string_body_plain:
  "json_plain s \<Longrightarrow> parse_string_body (s @ CHR 0x22 # rest) = Some (s, rest)"
  by (induction s) (auto simp: json_plain_def json_plain_char_def)

lemma range_changes_length: "length cs \<le> length (range_changes i cs)"
proof (induction cs arbitrary: i)
  case Nil
  show ?case by simp
next
  case (Cons c cs)
  from Cons [of "Suc i"] show ?case by simp
qed

lemma range_changes_Suc:
  "range_changes (Suc i) (d # ds) =
     CHR '','' # CHR '' '' # CHR 0x22 # d @ CHR 0x22 # range_changes (Suc (Suc i)) ds"
  by simp


lemma pv_ws: "is_ws c \<Longrightarrow> parse_value (Suc n) (c # cs) = parse_value (Suc n) cs"
  by simp

lemma pv_obj:
  "parse_value (Suc n) (CHR ''{'' # cs) =
     (case skip_ws cs of
        [] \<Rightarrow> None
      | d # ds \<Rightarrow>
          if d = CHR ''}'' then Some (JObject [], ds)
          else (case parse_members n cs of
                  None \<Rightarrow> None
                | Some (ms, r) \<Rightarrow> Some (JObject ms, r)))"
  by (simp add: is_ws_def)

lemma pv_str:
  "parse_value (Suc n) (CHR 0x22 # cs) =
     (case parse_string_body cs of
        None \<Rightarrow> None
      | Some (str, r) \<Rightarrow> Some (JString str, r))"
  by (simp add: is_ws_def)

lemma pv_bool: "parse_value (Suc n) (print_bool b @ rest) = Some (JBool b, rest)"
  by (cases b) (simp_all add: print_bool_def is_ws_def)

lemma pe_changes:
  "json_plain c \<Longrightarrow> list_all json_plain cs \<Longrightarrow> length cs < n \<Longrightarrow>
     parse_elements (Suc n) (CHR 0x22 # c @ CHR 0x22 # range_changes (Suc i) cs @ CHR '']'' # rest)
       = Some (map JString (c # cs), rest)"
proof (induction cs arbitrary: c n i)
  case Nil
  then obtain n' where n: "n = Suc n'" by (cases n) auto
  show ?case using Nil unfolding n
    by (simp add: is_ws_def parse_string_body_plain)
next
  case (Cons d ds)
  then obtain n' where n: "n = Suc n'" "length ds < n'" by (cases n) auto
  have IH: "parse_elements (Suc n')
      (CHR 0x22 # d @ CHR 0x22 # range_changes (Suc (Suc i)) ds @ CHR '']'' # rest)
       = Some (map JString (d # ds), rest)"
    using Cons.IH [of d n' "Suc i"] Cons.prems n(2) by simp
  have pv: "parse_value (Suc n')
      (CHR 0x22 # c @ CHR 0x22 # CHR '','' # CHR '' '' # CHR 0x22 # d @ CHR 0x22
         # range_changes (Suc (Suc i)) ds @ CHR '']'' # rest)
      = Some (JString c, CHR '','' # CHR '' '' # CHR 0x22 # d @ CHR 0x22
         # range_changes (Suc (Suc i)) ds @ CHR '']'' # rest)"
    using Cons.prems(1) by (simp add: is_ws_def parse_string_body_plain)
  have pe: "parse_elements (Suc n')
      (CHR '' '' # CHR 0x22 # d @ CHR 0x22 # range_changes (Suc (Suc i)) ds @ CHR '']'' # rest)
       = Some (map JString (d # ds), rest)"
  proof -
    obtain k where k: "n' = Suc k" using n(2) by (cases n') auto
    have "parse_value n' (CHR '' '' # CHR 0x22 # d @ CHR 0x22 # range_changes (Suc (Suc i)) ds @ CHR '']'' # rest)
        = parse_value n' (CHR 0x22 # d @ CHR 0x22 # range_changes (Suc (Suc i)) ds @ CHR '']'' # rest)"
      unfolding k by (simp add: is_ws_def)
    then show ?thesis using IH by simp
  qed
  show ?case unfolding n(1)
    apply (subst parse_elements.simps)
    apply (simp only: range_changes_Suc append_Cons append_Nil append_assoc)
    apply (simp only: pv option.case prod.case)
    apply (simp add: is_ws_def pe del: parse_value.simps parse_elements.simps)
    done
qed

lemma pv_changes:
  assumes "list_all json_plain cs" and "length cs < n"
  shows "parse_value (Suc n) (CHR ''['' # range_changes 0 cs @ CHR '']'' # rest)
           = Some (JArray (map JString cs), rest)"
proof (cases cs)
  case Nil
  then show ?thesis by (simp add: is_ws_def)
next
  case (Cons c cs')
  with assms obtain n' where n: "n = Suc n'" "length cs' < n'" by (cases n) auto
  have "parse_elements (Suc n')
          (CHR 0x22 # c @ CHR 0x22 # range_changes (Suc 0) cs' @ CHR '']'' # rest)
        = Some (map JString (c # cs'), rest)"
    using pe_changes [of c cs' n' 0 rest] assms(1) n(2) Cons by simp
  then show ?thesis unfolding Cons n(1)
    by (simp add: is_ws_def del: parse_elements.simps)
qed

lemma tmpl_line_simps:
  "tmpl_line 0 s = s @ [CHR 0x0A]"
  "tmpl_line 1 s = CHR 0x09 # s @ [CHR 0x0A]"
  "tmpl_line 2 s = CHR 0x09 # CHR 0x09 # s @ [CHR 0x0A]"
  "tmpl_line 3 s = CHR 0x09 # CHR 0x09 # CHR 0x09 # s @ [CHR 0x0A]"
  "tmpl_line 4 s = CHR 0x09 # CHR 0x09 # CHR 0x09 # CHR 0x09 # s @ [CHR 0x0A]"
  by (simp_all add: tmpl_line_def eval_nat_numeral)

lemma payload_parse_value:
  assumes "plain_data d" and "length (pm_changes (pd_Package d)) \<le> m"
  shows "parse_value
           (Suc (Suc (Suc (Suc (Suc (Suc (Suc (Suc (Suc (Suc (Suc (Suc
            (Suc (Suc (Suc (Suc (Suc (Suc (Suc (Suc (Suc (Suc (Suc (Suc m))))))))))))))))))))))))
           (DefaultWebhookPayload d)
         = Some (envelope d, [CHR 0x0A])"
  using assms
  unfolding DefaultWebhookPayload_def envelope_def plain_data_def tmpl_line_simps
  by (simp add: pv_ws pv_obj pv_str pv_bool pv_changes parse_string_body_plain is_ws_def
        json_plain_char_def
      del: parse_value.simps)

lemma payload_length:
  "length (pm_changes (pd_Package d)) + 24 \<le> length (DefaultWebhookPayload d)"
  using range_changes_length [of "pm_changes (pd_Package d)" 0]
  unfolding DefaultWebhookPayload_def tmpl_line_simps
  by simp

lemma payload_parse_json:
  assumes "plain_data d"
  shows "parse_json (DefaultWebhookPayload d) = Some (envelope d)"
proof -
  define m where "m = length (DefaultWebhookPayload d) - 23"
  have le: "length (pm_changes (pd_Package d)) \<le> m"
    using payload_length [of d] by (simp add: m_def)
  have fuel: "Suc (length (DefaultWebhookPayload d)) =
           (Suc (Suc (Suc (Suc (Suc (Suc (Suc (Suc (Suc (Suc (Suc (Suc
            (Suc (Suc (Suc (Suc (Suc (Suc (Suc (Suc (Suc (Suc (Suc (Suc m))))))))))))))))))))))))"
    using payload_length [of d] by (simp add: m_def)
  show ?thesis
    unfolding parse_json_def fuel payload_parse_value [OF assms le]
    by (simp add: is_ws_def)
qed

lemma sublist_app_l: "sublist xs a \<Longrightarrow> sublist xs (a @ b)"
  by (auto simp: sublist_def) blast

lemma sublist_app_r: "sublist xs b \<Longrightarrow> sublist xs (a @ b)"
proof -
  assume "sublist xs b"
  then obtain ps ss where "b = ps @ xs @ ss" by (auto simp: sublist_def)
  then have "a @ b = (a @ ps) @ xs @ ss" by simp
  then show ?thesis unfolding sublist_def by blast
qed

lemma sublist_tmpl_line: "sublist s (tmpl_line n s)"
  by (simp add: tmpl_line_def)

lemma payload_contains_specversion:
  \<open>sublist ''"specversion" : "1.0",'' (DefaultWebhookPayload d)\<close>
  unfolding DefaultWebhookPayload_def
  by (rule sublist_app_r, rule sublist_app_r, rule sublist_app_l, rule sublist_tmpl_line)

lemma payload_contains_id:
  \<open>sublist (''"id" : "'' @ ev_id (pd_Event d) @ ''",'') (DefaultWebhookPayload d)\<close>
  unfolding DefaultWebhookPayload_def
  by (rule sublist_app_r, rule sublist_app_r, rule sublist_app_r, rule sublist_app_l, rule sublist_tmpl_line)

lemma payload_contains_type:
  \<open>sublist (''"type" : "io.artifacthub.'' @ ev_kind (pd_Event d) @ ''",'') (DefaultWebhookPayload d)\<close>
  unfolding DefaultWebhookPayload_def
  by (rule sublist_app_r, rule sublist_app_r, rule sublist_app_r, rule sublist_app_r, rule sublist_app_r, rule sublist_app_l, rule sublist_tmpl_line)

lemma payload_contains_datacontenttype:
  \<open>sublist ''"datacontenttype" : "application/json",'' (DefaultWebhookPayload d)\<close>
  unfolding DefaultWebhookPayload_def
  by (rule sublist_app_r, rule sublist_app_r, rule sublist_app_r, rule sublist_app_r, rule sublist_app_r, rule sublist_app_r, rule sublist_app_l, rule sublist_tmpl_line)

lemma payload_contains_package:
  \<open>sublist ''"package": {'' (DefaultWebhookPayload d)\<close>
  unfolding DefaultWebhookPayload_def
  by (rule sublist_app_r, rule sublist_app_r, rule sublist_app_r, rule sublist_app_r, rule sublist_app_r, rule sublist_app_r, rule sublist_app_r, rule sublist_app_r, rule sublist_app_l, rule sublist_tmpl_line)

text \<open>
  C5. The data are those \<open>preparePkgNotificationTemplateData\<close> builds for an event and its
  package. For every event and package the rendered text contains the specification
  version, the event id, the type \<open>io.artifacthub.<kind>\<close>, the content type marker and the
  opening of the package payload, each as its own line of the envelope. When the strings
  inserted are plain (the template does not escape them), the text is JSON and reads back
  as the envelope with these members and the nested package payload. In particular, for
  the package \<open>etcd 3.5.0\<close> with no changes and both flags false, the text is JSON, the
  change list is the empty array, and the two flags are the JSON value false, not strings.
\<close>

theorem C5_default_webhook_payload_envelope:
  assumes "out = DefaultWebhookPayload (pkgTemplateData w e p)"
    and "kind = (case EventKind e of NewRelease \<Rightarrow> ''package.new-release'' | _ \<Rightarrow> [])"
    and "publisher = (if r_OrganizationName (p_Repository p) = [] then r_UserAlias (p_Repository p)
                      else r_OrganizationName (p_Repository p))"
    and "url = BuildURL w (baseURL w) p (PackageVersion e)"
  shows \<open>sublist ''"specversion" : "1.0",'' out
       \<and> sublist (''"id" : "'' @ EventID e @ ''",'') out
       \<and> sublist (''"type" : "io.artifacthub.'' @ kind @ ''",'') out
       \<and> sublist ''"datacontenttype" : "application/json",'' out
       \<and> sublist ''"package": {'' out
       \<and> (json_plain (EventID e) \<and> json_plain (p_Name p) \<and> json_plain (p_Version p)
            \<and> json_plain url \<and> list_all json_plain (p_Changes p)
            \<and> json_plain (GetKindName w (r_Kind (p_Repository p)))
            \<and> json_plain (r_Name (p_Repository p)) \<and> json_plain publisher \<longrightarrow>
          parse_json out = Some (JObject [
            (''specversion'', JString ''1.0''),
            (''id'', JString (EventID e)),
            (''source'', JString ''https://artifacthub.io/cloudevents''),
            (''type'', JString (''io.artifacthub.'' @ kind)),
            (''datacontenttype'', JString ''application/json''),
            (''data'', JObject [
               (''package'', JObject [
                  (''name'', JString (p_Name p)),
                  (''version'', JString (p_Version p)),
                  (''url'', JString url),
                  (''changes'', JArray (map JString (p_Changes p))),
                  (''containsSecurityUpdates'', JBool (p_ContainsSecurityUpdates p)),
                  (''prerelease'', JBool (p_Prerelease p)),
                  (''repository'', JObject [
                     (''kind'', JString (GetKindName w (r_Kind (p_Repository p)))),
                     (''name'', JString (r_Name (p_Repository p))),
                     (''publisher'', JString publisher)])])])])
          \<and> (p_Name p = ''etcd'' \<and> p_Version p = ''3.5.0'' \<and> p_Changes p = []
               \<and> \<not> p_ContainsSecurityUpdates p \<and> \<not> p_Prerelease p \<longrightarrow>
              (\<exists>v. parse_json out = Some v
                 \<and> json_path v [''data'', ''package'', ''name''] = Some (JString ''etcd'')
                 \<and> json_path v [''data'', ''package'', ''version''] = Some (JString ''3.5.0'')
                 \<and> json_path v [''data'', ''package'', ''changes''] = Some (JArray [])
                 \<and> json_path v [''data'', ''package'', ''containsSecurityUpdates'']
                     = Some (JBool False)
                 \<and> json_path v [''data'', ''package'', ''prerelease''] = Some (JBool False))))\<close>
proof -
  let ?d = "pkgTemplateData w e p"
  have ev: "ev_id (pd_Event ?d) = EventID e" "ev_kind (pd_Event ?d) = kind"
    by (simp_all add: pkgTemplateData_def assms(2))
  have kind_plain: "json_plain kind"
    unfolding assms(2) by (cases "EventKind e") (simp_all add: json_plain_def json_plain_char_def)
  have c1: \<open>sublist ''"specversion" : "1.0",'' out\<close>
    unfolding assms(1) by (rule payload_contains_specversion)
  have c2: \<open>sublist (''"id" : "'' @ EventID e @ ''",'') out\<close>
    unfolding assms(1) using payload_contains_id [of ?d] by (simp only: ev)
  have c3: \<open>sublist (''"type" : "io.artifacthub.'' @ kind @ ''",'') out\<close>
    unfolding assms(1) using payload_contains_type [of ?d] by (simp only: ev)
  have c4: \<open>sublist ''"datacontenttype" : "application/json",'' out\<close>
    unfolding assms(1) by (rule payload_contains_datacontenttype)
  have c5: \<open>sublist ''"package": {'' out\<close>
    unfolding assms(1) by (rule payload_contains_package)
  have parse: "parse_json out = Some (envelope ?d)"
    if "json_plain (EventID e)" "json_plain (p_Name p)" "json_plain (p_Version p)"
       "json_plain url" "list_all json_plain (p_Changes p)"
       "json_plain (GetKindName w (r_Kind (p_Repository p)))"
       "json_plain (r_Name (p_Repository p))" "json_plain publisher"
  proof -
    have "plain_data ?d"
      using that kind_plain unfolding plain_data_def ev
      by (simp add: pkgTemplateData_def assms(3,4))
    then show ?thesis unfolding assms(1) by (rule payload_parse_json)
  qed
  have env: "envelope ?d = JObject [
            (''specversion'', JString ''1.0''),
            (''id'', JString (EventID e)),
            (''source'', JString ''https://artifacthub.io/cloudevents''),
            (''type'', JString (''io.artifacthub.'' @ kind)),
            (''datacontenttype'', JString ''application/json''),
            (''data'', JObject [
               (''package'', JObject [
                  (''name'', JString (p_Name p)),
                  (''version'', JString (p_Version p)),
                  (''url'', JString url),
                  (''changes'', JArray (map JString (p_Changes p))),
                  (''containsSecurityUpdates'', JBool (p_ContainsSecurityUpdates p)),
                  (''prerelease'', JBool (p_Prerelease p)),
                  (''repository'', JObject [
                     (''kind'', JString (GetKindName w (r_Kind (p_Repository p)))),
                     (''name'', JString (r_Name (p_Repository p))),
                     (''publisher'', JString publisher)])])])]"
    unfolding envelope_def ev by (simp add: pkgTemplateData_def assms(3,4))
  have paths: "json_path (envelope ?d) [''data'', ''package'', ''name''] = Some (JString (p_Name p))"
    "json_path (envelope ?d) [''data'', ''package'', ''version''] = Some (JString (p_Version p))"
    "json_path (envelope ?d) [''data'', ''package'', ''changes'']
       = Some (JArray (map JString (p_Changes p)))"
    "json_path (envelope ?d) [''data'', ''package'', ''containsSecurityUpdates'']
       = Some (JBool (p_ContainsSecurityUpdates p))"
    "json_path (envelope ?d) [''data'', ''package'', ''prerelease''] = Some (JBool (p_Prerelease p))"
    unfolding env by simp_all
  show ?thesis
    using c1 c2 c3 c4 c5 parse paths unfolding env [symmetric] by auto
qed

theorem C5_witness:
  \<open>json_plain (EventID example_event) \<and> json_plain (p_Name example_package)
   \<and> json_plain (p_Version example_package)
   \<and> json_plain ''https://hub.example/packages/etcd/3.5.0''
   \<and> list_all json_plain (p_Changes example_package)
   \<and> json_plain (GetKindName example_worker (r_Kind (p_Repository example_package)))
   \<and> json_plain (r_Name (p_Repository example_package)) \<and> json_plain ''cncf''
   \<and> p_Name example_package = ''etcd'' \<and> p_Version example_package = ''3.5.0''
   \<and> p_Changes example_package = []
   \<and> \<not> p_ContainsSecurityUpdates example_package \<and> \<not> p_Prerelease example_package
   \<and> parse_json (DefaultWebhookPayload (pkgTemplateData example_worker example_event example_package))
       = Some (JObject [
            (''specversion'', JString ''1.0''),
            (''id'', JString ''e1''),
            (''source'', JString ''https://artifacthub.io/cloudevents''),
            (''type'', JString ''io.artifacthub.package.new-release''),
            (''datacontenttype'', JString ''application/json''),
            (''data'', JObject [
               (''package'', JObject [
                  (''name'', JString ''etcd''),
                  (''version'', JString ''3.5.0''),
                  (''url'', JString ''https://hub.example/packages/etcd/3.5.0''),
                  (''changes'', JArray []),
                  (''containsSecurityUpdates'', JBool False),
                  (''prerelease'', JBool False),
                  (''repository'', JObject [
                     (''kind'', JString ''helm''),
                     (''name'', JString ''stable''),
                     (''publisher'', JString ''cncf'')])])])])\<close>
proof -
  have k: "''package.new-release'' =
      (case EventKind example_event of NewRelease \<Rightarrow> ''package.new-release'' | _ \<Rightarrow> [])"
    by (simp add: example_event_def)
  have pb: "''cncf'' = (if r_OrganizationName (p_Repository example_package) = []
                      then r_UserAlias (p_Repository example_package)
                      else r_OrganizationName (p_Repository example_package))"
    by (simp add: example_package_def example_repository_def)
  have u: "''https://hub.example/packages/etcd/3.5.0'' =
      BuildURL example_worker (baseURL example_worker) example_package (PackageVersion example_event)"
    by (simp add: example_worker_def example_package_def example_event_def)
  have plain: "json_plain (EventID example_event) \<and> json_plain (p_Name example_package)
   \<and> json_plain (p_Version example_package)
   \<and> json_plain ''https://hub.example/packages/etcd/3.5.0''
   \<and> list_all json_plain (p_Changes example_package)
   \<and> json_plain (GetKindName example_worker (r_Kind (p_Repository example_package)))
   \<and> json_plain (r_Name (p_Repository example_package)) \<and> json_plain ''cncf''"
    by (simp add: example_defs json_plain_def json_plain_char_def)
  have vals: "EventID example_event = ''e1''" "p_Name example_package = ''etcd''"
    "p_Version example_package = ''3.5.0''" "p_Changes example_package = []"
    "p_ContainsSecurityUpdates example_package = False" "p_Prerelease example_package = False"
    "GetKindName example_worker (r_Kind (p_Repository example_package)) = ''helm''"
    "r_Name (p_Repository example_package) = ''stable''"
    by (simp_all add: example_defs)
  note th = C5_default_webhook_payload_envelope [OF refl k pb u]
  have "parse_json (DefaultWebhookPayload (pkgTemplateData example_worker example_event example_package))
       = Some (JObject [
            (''specversion'', JString ''1.0''),
            (''id'', JString (EventID example_event)),
            (''source'', JString ''https://artifacthub.io/cloudevents''),
            (''type'', JString (''io.artifacthub.'' @ ''package.new-release'')),
            (''datacontenttype'', JString ''application/json''),
            (''data'', JObject [
               (''package'', JObject [
                  (''name'', JString (p_Name example_package)),
                  (''version'', JString (p_Version example_package)),
                  (''url'', JString ''https://hub.example/packages/etcd/3.5.0''),
                  (''changes'', JArray (map JString (p_Changes example_package))),
                  (''containsSecurityUpdates'', JBool (p_ContainsSecurityUpdates example_package)),
                  (''prerelease'', JBool (p_Prerelease example_package)),
                  (''repository'', JObject [
                     (''kind'', JString (GetKindName example_worker (r_Kind (p_Repository example_package)))),
                     (''name'', JString (r_Name (p_Repository example_package))),
                     (''publisher'', JString ''cncf'')])])])])"
    by (rule th [THEN conjunct2, THEN conjunct2, THEN conjunct2, THEN conjunct2, THEN conjunct2,
          THEN mp, OF plain, THEN conjunct1])
  then have parse: "parse_json (DefaultWebhookPayload (pkgTemplateData example_worker example_event example_package))
       = Some (JObject [
            (''specversion'', JString ''1.0''),
            (''id'', JString ''e1''),
            (''source'', JString ''https://artifacthub.io/cloudevents''),
            (''type'', JString ''io.artifacthub.package.new-release''),
            (''datacontenttype'', JString ''application/json''),
            (''data'', JObject [
               (''package'', JObject [
                  (''name'', JString ''etcd''),
                  (''version'', JString ''3.5.0''),
                  (''url'', JString ''https://hub.example/packages/etcd/3.5.0''),
                  (''changes'', JArray []),
                  (''containsSecurityUpdates'', JBool False),
                  (''prerelease'', JBool False),
                  (''repository'', JObject [
                     (''kind'', JString ''helm''),
                     (''name'', JString ''stable''),
                     (''publisher'', JString ''cncf'')])])])])"
    unfolding vals by simp
  from plain vals parse show ?thesis by (intro conjI) simp_all
qed

end
